theory Spec2Isabelle
  imports Complex_Main
begin

section \<open>Python building blocks\<close>

text \<open>
  Python integers are unbounded: they are modelled as \<^typ>\<open>int\<close>. A sequence is a list.
  \<open>xs[a:b]\<close> never raises: a negative bound counts from the end, and both bounds are
  clipped to the sequence.
\<close>

definition py_index :: "int \<Rightarrow> int \<Rightarrow> int" where
  "py_index n i = (if i < 0 then max 0 (i + n) else min i n)"

definition py_slice :: "'a list \<Rightarrow> int \<Rightarrow> int \<Rightarrow> 'a list" where
  "py_slice xs a b =
     (let n = int (length xs); lo = py_index n a; hi = py_index n b
      in take (nat (hi - lo)) (drop (nat lo) xs))"

text \<open>\<open>xs[a:]\<close>: the slice without an upper bound.\<close>

definition py_slice_from :: "'a list \<Rightarrow> int \<Rightarrow> 'a list" where
  "py_slice_from xs a = drop (nat (py_index (int (length xs)) a)) xs"

text \<open>\<open>xs[:b]\<close>: the slice without a lower bound.\<close>

definition py_slice_to :: "'a list \<Rightarrow> int \<Rightarrow> 'a list" where
  "py_slice_to xs b = take (nat (py_index (int (length xs)) b)) xs"

text \<open>
  \<open>min(xs, key=f)\<close> on a non-empty sequence \<open>b # bs\<close>: the scan keeps the element seen
  first among those with the least key.
\<close>

definition py_min_key :: "('a \<Rightarrow> 'k::linorder) \<Rightarrow> 'a \<Rightarrow> 'a list \<Rightarrow> 'a" where
  "py_min_key f b bs = foldl (\<lambda>best x. if f x < f best then x else best) b bs"

text \<open>
  The exceptions the modelled code raises: the planners' "Too many chunks generated", the
  stitcher's "No chunk files provided" and "No valid audio data to stitch", a file that cannot
  be opened or created, \<open>shutil.SameFileError\<close>, numpy's shape error in \<open>np.vstack\<close>, Python's
  \<open>ZeroDivisionError\<close>, \<open>IndexError\<close> and \<open>TypeError\<close>, a failed run of ffmpeg, the
  text stitcher's "No transcript chunks provided", numpy's \<open>ValueError\<close> for two arrays
  that cannot be broadcast to one shape, and \<open>AttributeError\<close>.
\<close>

datatype error =
    TooManyChunks
  | NoChunkFiles
  | NoValidAudio
  | FileNotFound
  | SameFile
  | ShapeMismatch
  | ZeroDivision
  | IndexError
  | TypeError
  | CalledProcessError
  | NoTranscriptChunks
  | ValueError
  | AttributeError

section \<open>Chunk planning\<close>

subsection \<open>audio\_chunker\_sample\_accurate.py\<close>

text \<open>
  One entry of the list \<open>chunks\<close>. \<open>chunk_data\<close> is the array that \<open>sf.write\<close> is given
  for the entry's \<open>file_path\<close>; the times are the sample bounds divided by the sample rate.
\<close>

record 'a chunk_info =
  index :: int
  start_sample :: int
  end_sample :: int
  chunk_data :: "'a list"

text \<open>
  The \<open>while\<close> loop of \<open>split_audio_with_perfect_overlap\<close>, with the loop variables
  \<open>chunks\<close>, \<open>chunk_index\<close> and \<open>start_sample\<close> as arguments. The safety check raises
  once \<open>chunk_index\<close> has passed 1000.
\<close>

function perfect_overlap_loop ::
  "int \<Rightarrow> int \<Rightarrow> 'a list \<Rightarrow> 'a chunk_info list \<Rightarrow> int \<Rightarrow> int \<Rightarrow> error + 'a chunk_info list"
where
  "perfect_overlap_loop chunk_samples overlap_samples audio_data chunks chunk_index start =
     (let total_samples = int (length audio_data) in
      if start < total_samples then
        (let end_sample =
               (if start + chunk_samples < total_samples
                then min (start + chunk_samples + overlap_samples) total_samples
                else total_samples);
             chunk_data = py_slice audio_data start end_sample;
             chunk_info = \<lparr>index = chunk_index, start_sample = start,
                            end_sample = end_sample, chunk_data = chunk_data\<rparr>
         in if chunk_index + 1 > 1000 then Inl TooManyChunks
            else perfect_overlap_loop chunk_samples overlap_samples audio_data
                   (chunks @ [chunk_info]) (chunk_index + 1) (start + chunk_samples))
      else Inr chunks)"
  by pat_completeness auto
termination
  by (relation "measure (\<lambda>(cs, ov, a, chunks, i, s). nat (1001 - i))") auto

declare perfect_overlap_loop.simps [simp del]

text \<open>
  \<open>_verify_overlaps\<close> reads the chunk files back and, for every adjacent pair, hands the last
  \<open>overlap_samples\<close> frames of the first chunk and the first \<open>overlap_samples\<close> frames of
  the second to \<open>np.allclose\<close>. That call raises \<open>ValueError\<close> when the two arrays cannot
  be broadcast to one shape: their numbers of frames differ and neither is 1. Values that
  differ are logged and have no other effect. A chunk that is written and read back keeps its
  number of frames.
\<close>

definition np_broadcastable :: "nat \<Rightarrow> nat \<Rightarrow> bool" where
  "np_broadcastable m n \<longleftrightarrow> m = n \<or> m = 1 \<or> n = 1"

fun verify_overlaps :: "int \<Rightarrow> 'a chunk_info list \<Rightarrow> error + unit" where
  "verify_overlaps overlap_samples (chunk_a # chunk_b # chunks) =
     (let overlap_a = py_slice_from (chunk_data chunk_a) (- overlap_samples);
          overlap_b = py_slice_to (chunk_data chunk_b) overlap_samples
      in if np_broadcastable (length overlap_a) (length overlap_b)
         then verify_overlaps overlap_samples (chunk_b # chunks)
         else Inl ValueError)"
| "verify_overlaps overlap_samples chunks = Inr ()"

text \<open>
  \<open>split_audio_with_perfect_overlap\<close>: the loop, then the verification of a plan of more than
  one chunk.
\<close>

definition split_audio_with_perfect_overlap ::
  "int \<Rightarrow> int \<Rightarrow> int \<Rightarrow> 'a list \<Rightarrow> error + 'a chunk_info list"
where
  "split_audio_with_perfect_overlap chunk_duration overlap_duration sample_rate audio_data =
     (case perfect_overlap_loop (chunk_duration * sample_rate) (overlap_duration * sample_rate)
             audio_data [] 0 0 of
        Inl e \<Rightarrow> Inl e
      | Inr chunks \<Rightarrow>
          if length chunks > 1 then
            (case verify_overlaps (overlap_duration * sample_rate) chunks of
               Inl e \<Rightarrow> Inl e
             | Inr ok \<Rightarrow> Inr chunks)
          else Inr chunks)"

subsection \<open>smart\_audio\_chunker.py and transcript\_chunker.py\<close>

text \<open>
  \<open>librosa.effects.split\<close> is an external detector. Its result is a parameter of the
  model: \<open>Some\<close> of the non-silent intervals \<open>(start, end)\<close>, or \<open>None\<close> when the call
  raises, which \<open>find_silence_boundaries\<close> catches.
\<close>

definition find_silence_boundaries :: "(int \<times> int) list option \<Rightarrow> 'a list \<Rightarrow> int list" where
  "find_silence_boundaries detected audio_data =
     (case detected of
        None \<Rightarrow> [0, int (length audio_data)]
      | Some non_silent_intervals \<Rightarrow>
          sort (remdups
            ([0] @
             map (\<lambda>i. (snd (non_silent_intervals ! i) + fst (non_silent_intervals ! (i + 1))) div 2)
               [0 ..< length non_silent_intervals - 1] @
             [int (length audio_data)])))"

definition find_optimal_split_point :: "int \<Rightarrow> int \<Rightarrow> int list \<Rightarrow> int \<Rightarrow> int" where
  "find_optimal_split_point max_deviation target_sample silence_boundaries sample_rate =
     (let max_deviation_samples = max_deviation * sample_rate;
          valid_boundaries =
            filter (\<lambda>boundary. \<bar>boundary - target_sample\<bar> \<le> max_deviation_samples)
              silence_boundaries
      in case valid_boundaries of
           [] \<Rightarrow> target_sample
         | b # bs \<Rightarrow> py_min_key (\<lambda>x. \<bar>x - target_sample\<bar>) b bs)"

text \<open>\<open>find_optimal_transcript_split_point\<close> of transcript\_chunker.py has the same body.\<close>

definition find_optimal_transcript_split_point :: "int \<Rightarrow> int \<Rightarrow> int list \<Rightarrow> int \<Rightarrow> int" where
  "find_optimal_transcript_split_point = find_optimal_split_point"

record 'a smart_chunk_info = "'a chunk_info" +
  actual_split_sample :: int

text \<open>
  The \<open>while\<close> loop shared by \<open>split_audio_at_silence_boundaries\<close> and
  \<open>split_audio_for_transcription\<close>: the two differ in the bound \<open>cap\<close> of the safety
  check (1000 and 100).
\<close>

function silence_split_loop ::
  "int \<Rightarrow> int \<Rightarrow> int \<Rightarrow> int \<Rightarrow> int \<Rightarrow> int list \<Rightarrow> 'a list \<Rightarrow>
   'a smart_chunk_info list \<Rightarrow> int \<Rightarrow> int \<Rightarrow> error + 'a smart_chunk_info list"
where
  "silence_split_loop cap target_chunk_duration overlap_duration max_deviation sample_rate
       silence_boundaries audio_data chunks chunk_index current_start =
     (let total_samples = int (length audio_data) in
      if current_start < total_samples then
        (let target_end_sample = current_start + target_chunk_duration * sample_rate;
             actual_end_sample =
               (if target_end_sample \<ge> total_samples then total_samples
                else find_optimal_split_point max_deviation target_end_sample
                       silence_boundaries sample_rate);
             chunk_end_sample =
               (if actual_end_sample < total_samples
                then min (actual_end_sample + overlap_duration * sample_rate) total_samples
                else actual_end_sample);
             chunk_data = py_slice audio_data current_start chunk_end_sample;
             chunk_info = \<lparr>index = chunk_index, start_sample = current_start,
                            end_sample = chunk_end_sample, chunk_data = chunk_data,
                            actual_split_sample = actual_end_sample\<rparr>
         in if chunk_index + 1 > cap then Inl TooManyChunks
            else silence_split_loop cap target_chunk_duration overlap_duration max_deviation
                   sample_rate silence_boundaries audio_data
                   (chunks @ [chunk_info]) (chunk_index + 1) actual_end_sample)
      else Inr chunks)"
  by pat_completeness auto
termination
  by (relation "measure (\<lambda>(cap, t, ov, d, sr, bs, a, chunks, i, s). nat (cap + 1 - i))") auto

declare silence_split_loop.simps [simp del]

definition split_audio_at_silence_boundaries ::
  "int \<Rightarrow> int \<Rightarrow> int \<Rightarrow> int \<Rightarrow> (int \<times> int) list option \<Rightarrow> 'a list \<Rightarrow>
   error + 'a smart_chunk_info list"
where
  "split_audio_at_silence_boundaries target_chunk_duration overlap_duration max_deviation
       sample_rate detected audio_data =
     silence_split_loop 1000 target_chunk_duration overlap_duration max_deviation sample_rate
       (find_silence_boundaries detected audio_data) audio_data [] 0 0"

definition split_audio_for_transcription ::
  "int \<Rightarrow> int \<Rightarrow> int \<Rightarrow> int \<Rightarrow> (int \<times> int) list option \<Rightarrow> 'a list \<Rightarrow>
   error + 'a smart_chunk_info list"
where
  "split_audio_for_transcription target_chunk_duration overlap_duration max_deviation
       sample_rate detected audio_data =
     silence_split_loop 100 target_chunk_duration overlap_duration max_deviation sample_rate
       (find_silence_boundaries detected audio_data) audio_data [] 0 0"

section \<open>Audio reassembly\<close>

subsection \<open>audio\_stitcher.py\<close>

text \<open>
  What \<open>sf.read(path, always_2d=True)\<close> returns for an audio file: the array \<open>data\<close> of
  shape (frames, channels), one inner list per frame, and the sample rate. The samples are
  floating-point numbers, modelled as reals.
\<close>

record audio_file =
  data :: "real list list"
  channels :: nat
  samplerate :: int

text \<open>
  The file system maps the location of every audio file that exists to its content. A path
  names a location: \<open>locate\<close> is the operating system's resolution of a path, \<open>None\<close> when
  a directory of the path does not exist, so that no file can be opened or created under it.
  Two paths name the same file when they resolve to the same location. \<open>locate\<close> is a
  parameter of the model.
\<close>

type_synonym filesystem = "string \<Rightarrow> audio_file option"

type_synonym resolver = "string \<Rightarrow> string option"

definition file_at :: "resolver \<Rightarrow> filesystem \<Rightarrow> string \<Rightarrow> audio_file option" where
  "file_at locate fs path = (case locate path of None \<Rightarrow> None | Some l \<Rightarrow> fs l)"

text \<open>
  \<open>sf.write(path, data, samplerate)\<close> stores the samples in the subtype of the output
  format, and \<open>sf.read\<close> decodes them: \<open>encode\<close> gives the value that is read back for a
  sample that was written. It is a parameter of the model. The call raises when the file
  cannot be created.
\<close>

definition sf_write ::
  "resolver \<Rightarrow> (real \<Rightarrow> real) \<Rightarrow> filesystem \<Rightarrow> string \<Rightarrow> audio_file \<Rightarrow> error + filesystem"
where
  "sf_write locate encode fs path f =
     (case locate path of
        None \<Rightarrow> Inl FileNotFound
      | Some l \<Rightarrow> Inr (fs(l \<mapsto> f\<lparr>data := map (map encode) (data f)\<rparr>)))"

text \<open>
  The codec of 16-bit PCM, the default subtype of a \<open>.wav\<close> file, as libsndfile converts
  with clipping switched on (soundfile does so for every file it opens): a sample is scaled by
  \<open>32768\<close>, clipped to the 16-bit range and rounded to the nearest integer, halves to the
  even one; reading divides by \<open>32768\<close>.
\<close>

definition round_half_even :: "real \<Rightarrow> int" where
  "round_half_even x =
     (if x - real_of_int \<lfloor>x\<rfloor> < 1 / 2 then \<lfloor>x\<rfloor>
      else if x - real_of_int \<lfloor>x\<rfloor> > 1 / 2 then \<lfloor>x\<rfloor> + 1
      else if even \<lfloor>x\<rfloor> then \<lfloor>x\<rfloor> else \<lfloor>x\<rfloor> + 1)"

definition pcm_16 :: "real \<Rightarrow> real" where
  "pcm_16 x =
     real_of_int
       (if x * 32768 \<ge> 32767 then 32767
        else if x * 32768 \<le> - 32768 then - 32768
        else round_half_even (x * 32768)) / 32768"

text \<open>
  \<open>shutil.copy2(src, dst)\<close> for a destination that is not a directory: it raises
  \<open>SameFileError\<close> when both paths name the same existing file, and
  \<open>FileNotFoundError\<close> when the source does not exist or the destination cannot be
  created; otherwise the destination holds a copy of the source.
\<close>

definition shutil_copy2 :: "resolver \<Rightarrow> filesystem \<Rightarrow> string \<Rightarrow> string \<Rightarrow> error + filesystem" where
  "shutil_copy2 locate fs src dst =
     (case file_at locate fs src of
        None \<Rightarrow> Inl FileNotFound
      | Some content \<Rightarrow>
          (case locate dst of
             None \<Rightarrow> Inl FileNotFound
           | Some l \<Rightarrow> if locate src = Some l then Inl SameFile else Inr (fs(l \<mapsto> content))))"

text \<open>\<open>int(x)\<close> on a float truncates towards zero.\<close>

definition py_int :: "real \<Rightarrow> int" where
  "py_int x = (if 0 \<le> x then \<lfloor>x\<rfloor> else \<lceil>x\<rceil>)"

text \<open>\<open>np.linspace(0, 1, n)[j]\<close>, in exact arithmetic.\<close>

definition fade_curve :: "int \<Rightarrow> nat \<Rightarrow> real" where
  "fade_curve n j = (if n = 1 then 0 else real j / real_of_int (n - 1))"

text \<open>
  \<open>trimmed_data[:fade_samples, channel] *= fade_curve\<close> for every channel: frame \<open>j\<close> below
  \<open>fade_samples\<close> is scaled by \<open>fade_curve[j]\<close>.
\<close>

definition apply_fade :: "int \<Rightarrow> real list list \<Rightarrow> real list list" where
  "apply_fade fade_samples trimmed_data =
     map (\<lambda>(j, frame). if int j < fade_samples
                          then map (\<lambda>v. v * fade_curve fade_samples j) frame else frame)
       (enumerate 0 trimmed_data)"

text \<open>
  \<open>np.vstack\<close> of arrays given as (frames, number of columns): the arrays are stacked when
  they agree on the number of columns, and the call raises otherwise.
\<close>

definition np_vstack :: "(real list list \<times> nat) list \<Rightarrow> error + (real list list \<times> nat)" where
  "np_vstack arrays =
     (case arrays of
        [] \<Rightarrow> Inl ShapeMismatch
      | (d, c) # rest \<Rightarrow>
          if list_all (\<lambda>a. snd a = c) rest then Inr (concat (map fst arrays), c)
          else Inl ShapeMismatch)"

text \<open>
  The \<open>for\<close> loop of \<open>_stitch_ml_chunks_no_crossfade\<close> over \<open>enumerate(chunk_files)\<close>, with
  the loop variables \<open>stitched_data\<close> and \<open>sample_rate\<close> (\<open>None\<close> until the first file is
  read); \<open>sf_read\<close> gives the content of the file that a path names, and the loop raises at
  a file that cannot be opened. A sample rate that differs from the first one is logged and
  has no other effect. \<open>fade_ms / 1000 * sr\<close> is computed in exact arithmetic.
\<close>

fun stitch_ml_loop ::
  "int \<Rightarrow> (string \<Rightarrow> audio_file option) \<Rightarrow> (nat \<times> string) list \<Rightarrow>
   (real list list \<times> nat) list \<Rightarrow> int option \<Rightarrow>
   error + ((real list list \<times> nat) list \<times> int option)"
where
  "stitch_ml_loop overlap_duration sf_read [] stitched_data sample_rate =
     Inr (stitched_data, sample_rate)"
| "stitch_ml_loop overlap_duration sf_read ((i, chunk_file) # rest) stitched_data sample_rate =
     (case sf_read chunk_file of
        None \<Rightarrow> Inl FileNotFound
      | Some f \<Rightarrow>
          (let sr = samplerate f;
               sample_rate' = (case sample_rate of None \<Rightarrow> Some sr | Some r \<Rightarrow> Some r);
               stitched_data' =
                 (if i = 0 then stitched_data @ [(data f, channels f)]
                  else
                    (let overlap_samples = overlap_duration * sr in
                     if int (length (data f)) > overlap_samples then
                       (let trimmed_data = py_slice_from (data f) overlap_samples;
                            fade_samples = min (py_int (50 / 1000 * real_of_int sr))
                                               (int (length trimmed_data));
                            trimmed_data' = (if fade_samples > 0
                                             then apply_fade fade_samples trimmed_data
                                             else trimmed_data)
                        in stitched_data @ [(trimmed_data', channels f)])
                     else stitched_data))
           in stitch_ml_loop overlap_duration sf_read rest stitched_data' sample_rate'))"

definition stitch_ml_chunks_no_crossfade ::
  "resolver \<Rightarrow> (real \<Rightarrow> real) \<Rightarrow> int \<Rightarrow> filesystem \<Rightarrow> string list \<Rightarrow> string \<Rightarrow>
   error + filesystem"
where
  "stitch_ml_chunks_no_crossfade locate encode overlap_duration fs chunk_files output_file =
     (case stitch_ml_loop overlap_duration (file_at locate fs) (enumerate 0 chunk_files) [] None of
        Inl e \<Rightarrow> Inl e
      | Inr (stitched_data, sample_rate) \<Rightarrow>
          if stitched_data = [] then Inl NoValidAudio
          else
            (case np_vstack stitched_data of
               Inl e \<Rightarrow> Inl e
             | Inr (final_audio, c) \<Rightarrow>
                 (case sample_rate of
                    None \<Rightarrow> Inl TypeError
                  | Some r \<Rightarrow>
                      if r = 0 then Inl ZeroDivision
                      else sf_write locate encode fs output_file
                             \<lparr>data = final_audio, channels = c, samplerate = r\<rparr>)))"

text \<open>\<open>AudioStitcher.stitch_chunks_with_crossfade\<close>.\<close>

definition AudioStitcher_stitch_chunks_with_crossfade ::
  "resolver \<Rightarrow> (real \<Rightarrow> real) \<Rightarrow> int \<Rightarrow> filesystem \<Rightarrow> string list \<Rightarrow> string \<Rightarrow>
   error + filesystem"
where
  "AudioStitcher_stitch_chunks_with_crossfade locate encode overlap_duration fs chunk_files
       output_file =
     (if length chunk_files = 0 then Inl NoChunkFiles
      else if length chunk_files = 1 then shutil_copy2 locate fs (chunk_files ! 0) output_file
      else stitch_ml_chunks_no_crossfade locate encode overlap_duration fs chunk_files
             output_file)"

text \<open>\<open>str(i)\<close> for an integer, as an f-string writes it.\<close>

fun str_nat :: "nat \<Rightarrow> string" where
  "str_nat n =
     (if n < 10 then [''0123456789'' ! n]
      else str_nat (n div 10) @ [''0123456789'' ! (n mod 10)])"

declare str_nat.simps [simp del]

definition py_str :: "int \<Rightarrow> string" where
  "py_str i = (if i < 0 then CHR ''-'' # str_nat (nat (- i)) else str_nat (nat i))"

text \<open>\<open>sep.join(parts)\<close>.\<close>

fun py_join :: "string \<Rightarrow> string list \<Rightarrow> string" where
  "py_join sep [] = []"
| "py_join sep [p] = p"
| "py_join sep (p # q # ps) = p @ sep @ py_join sep (q # ps)"

subsection \<open>audio\_chunker.py\<close>

definition aformat :: string where
  "aformat = ''aformat=sample_fmts=s16:sample_rates=44100:channel_layouts=stereo''"

definition AudioChunker_create_crossfade_filter :: "int \<Rightarrow> nat \<Rightarrow> error + string" where
  "AudioChunker_create_crossfade_filter overlap_duration num_chunks =
     (if num_chunks = 1 then Inr (''[0]'' @ aformat @ ''[out]'')
      else if num_chunks = 0 then Inl IndexError
      else
        (let inputs = map (\<lambda>i. ''['' @ py_str (int i) @ '']'') [0 ..< num_chunks];
             filters =
               [inputs ! 0 @ aformat @ ''[chunk0]''] @
               map (\<lambda>i. ''[chunk'' @ py_str (int i - 1) @ '']'' @ inputs ! i @ aformat @
                         ''acrossfade=d='' @ py_str overlap_duration @
                         '':c1=tri:c2=tri[chunk'' @ py_str (int i) @ '']'')
                 [1 ..< num_chunks] @
               [''[chunk'' @ py_str (int num_chunks - 1) @ '']'' @ aformat @ ''[out]'']
         in Inr (py_join '';'' filters)))"

text \<open>
  \<open>AudioChunker.stitch_chunks_with_crossfade\<close>. The run of ffmpeg is external: the
  parameter \<open>subprocess_run\<close> gives, for a command line and a file system, the file system
  after the run or the error raised.
\<close>

definition AudioChunker_stitch_chunks_with_crossfade ::
  "(string list \<Rightarrow> filesystem \<Rightarrow> error + filesystem) \<Rightarrow> resolver \<Rightarrow> int \<Rightarrow> filesystem \<Rightarrow>
   string list \<Rightarrow> string \<Rightarrow> error + filesystem"
where
  "AudioChunker_stitch_chunks_with_crossfade subprocess_run locate overlap_duration fs chunk_files
       output_file =
     (if length chunk_files = 1 then shutil_copy2 locate fs (chunk_files ! 0) output_file
      else
        (case AudioChunker_create_crossfade_filter overlap_duration (length chunk_files) of
           Inl e \<Rightarrow> Inl e
         | Inr filter_complex \<Rightarrow>
             subprocess_run
               ([''ffmpeg'', ''-y''] @ concat (map (\<lambda>chunk_file. [''-i'', chunk_file]) chunk_files) @
                [''-filter_complex'', filter_complex, ''-c:a'', ''pcm_s16le'', output_file])
               fs))"

section \<open>Speaker mapping and word-level reassembly\<close>

subsection \<open>enhanced\_transcript\_stitcher.py\<close>

text \<open>
  The Python compiler stops at line 185 of this file, where the \<open>return\<close> of the
  \<open>except\<close> branch of \<open>extract_transcription_data\<close> is indented one level too deep. The
  methods are modelled as their text reads, with that line at the depth of its block.
\<close>

text \<open>
  A diarization segment is a dictionary read with \<open>segment.get(key, default)\<close>: a field is
  \<open>None\<close> when the key is missing. Times are JSON numbers, modelled as reals.
\<close>

record diarization_segment =
  d_speaker :: "string option"
  d_start_time :: "real option"
  d_end_time :: "real option"

definition get_speaker :: "diarization_segment \<Rightarrow> string" where
  "get_speaker segment = (case d_speaker segment of Some s \<Rightarrow> s | None \<Rightarrow> ''UNKNOWN'')"

definition get_start_time :: "diarization_segment \<Rightarrow> real" where
  "get_start_time segment = (case d_start_time segment of Some t \<Rightarrow> t | None \<Rightarrow> 0)"

definition get_end_time :: "diarization_segment \<Rightarrow> real" where
  "get_end_time segment = (case d_end_time segment of Some t \<Rightarrow> t | None \<Rightarrow> 0)"

text \<open>
  \<open>find_speaker_at_time\<close>, with the same text in speaker\_embedding\_stitcher.py: the
  \<open>for\<close> loop returns at the first segment that holds the timestamp; otherwise \<open>min\<close>
  picks the segment with the nearest edge.
\<close>

definition find_speaker_at_time :: "diarization_segment list \<Rightarrow> real \<Rightarrow> string" where
  "find_speaker_at_time full_diarization_segments timestamp =
     (case find (\<lambda>segment. get_start_time segment \<le> timestamp \<and> timestamp \<le> get_end_time segment)
             full_diarization_segments of
        Some segment \<Rightarrow> get_speaker segment
      | None \<Rightarrow>
          (case full_diarization_segments of
             [] \<Rightarrow> ''UNKNOWN''
           | s # ss \<Rightarrow>
               get_speaker
                 (py_min_key (\<lambda>s. min \<bar>timestamp - get_start_time s\<bar> \<bar>timestamp - get_end_time s\<bar>)
                    s ss)))"

text \<open>
  A word of a transcription, again a dictionary read with \<open>get\<close>: the text is under
  \<open>word\<close> or under \<open>text\<close>.
\<close>

record word =
  w_word :: "string option"
  w_text :: "string option"
  w_start :: "real option"
  w_end :: "real option"
  w_speaker :: "string option"

definition get_word_text :: "word \<Rightarrow> string" where
  "get_word_text w =
     (case w_word w of Some s \<Rightarrow> s | None \<Rightarrow> (case w_text w of Some s \<Rightarrow> s | None \<Rightarrow> ''''))"

definition get_start :: "word \<Rightarrow> real" where
  "get_start w = (case w_start w of Some t \<Rightarrow> t | None \<Rightarrow> 0)"

definition get_end :: "word \<Rightarrow> real" where
  "get_end w = (case w_end w of Some t \<Rightarrow> t | None \<Rightarrow> 0)"

definition get_word_speaker :: "word \<Rightarrow> string" where
  "get_word_speaker w = (case w_speaker w of Some s \<Rightarrow> s | None \<Rightarrow> ''UNKNOWN'')"

text \<open>
  The word loop of \<open>map_chunk_to_full_diarization\<close>: every word gets the speaker found at
  its temporal midpoint, \<open>{**word, 'speaker': speaker}\<close>.
\<close>

definition map_words_to_speakers :: "diarization_segment list \<Rightarrow> word list \<Rightarrow> word list" where
  "map_words_to_speakers full_diarization_segments ws =
     map (\<lambda>w. w\<lparr>w_speaker :=
                  Some (find_speaker_at_time full_diarization_segments
                          ((get_start w + get_end w) / 2))\<rparr>) ws"

text \<open>
  A segment of the diarized transcript, as \<open>create_diarized_transcript_from_words\<close> and
  \<open>map_words_to_diarization_segments\<close> build it.
\<close>

record transcript_segment =
  ts_speaker :: string
  ts_start_time :: real
  ts_end_time :: real
  ts_text :: string
  ts_words :: "word list"

text \<open>
  The \<open>for\<close> loop of \<open>create_diarized_transcript_from_words\<close> in
  enhanced\_transcript\_stitcher.py, with the loop variables \<open>segments\<close> and
  \<open>current_segment\<close>. The copy of this method in speaker\_embedding\_stitcher.py differs: there
  the \<open>else\<close> is attached to the \<open>for\<close> statement. That copy is not modelled.
\<close>

fun create_segments_loop ::
  "word list \<Rightarrow> transcript_segment list \<Rightarrow> transcript_segment option \<Rightarrow>
   transcript_segment list \<times> transcript_segment option"
where
  "create_segments_loop [] segments current_segment = (segments, current_segment)"
| "create_segments_loop (w # ws) segments current_segment =
     (let speaker = get_word_speaker w;
          word_text = get_word_text w;
          start_time = get_start w;
          end_time = get_end w
      in case current_segment of
           None \<Rightarrow>
             create_segments_loop ws segments
               (Some \<lparr>ts_speaker = speaker, ts_start_time = start_time, ts_end_time = end_time,
                      ts_text = word_text, ts_words = [w]\<rparr>)
         | Some current \<Rightarrow>
             if ts_speaker current \<noteq> speaker then
               create_segments_loop ws (segments @ [current])
                 (Some \<lparr>ts_speaker = speaker, ts_start_time = start_time, ts_end_time = end_time,
                        ts_text = word_text, ts_words = [w]\<rparr>)
             else
               create_segments_loop ws segments
                 (Some (current\<lparr>ts_end_time := end_time,
                                ts_text := ts_text current @ '' '' @ word_text,
                                ts_words := ts_words current @ [w]\<rparr>)))"

definition create_diarized_transcript_from_words :: "word list \<Rightarrow> transcript_segment list" where
  "create_diarized_transcript_from_words ws =
     (if ws = [] then []
      else
        (case create_segments_loop ws [] None of
           (segments, current_segment) \<Rightarrow>
             (case current_segment of
                Some current \<Rightarrow> segments @ [current]
              | None \<Rightarrow> segments)))"

text \<open>
  \<open>map_words_to_diarization_segments\<close>: the words are sorted by start (a stable sort), and
  every diarization segment that overlaps a word yields one output segment with the words it
  overlaps.
\<close>

definition map_words_to_diarization_segments ::
  "word list \<Rightarrow> diarization_segment list \<Rightarrow> transcript_segment list"
where
  "map_words_to_diarization_segments ws diarization_segments =
     (if ws = [] \<or> diarization_segments = [] then []
      else
        (let sorted_words = sort_key get_start ws in
         concat
           (map (\<lambda>segment.
                   (let segment_start = get_start_time segment;
                        segment_end = get_end_time segment;
                        speaker = get_speaker segment;
                        segment_words =
                          filter (\<lambda>w. get_start w < segment_end \<and> get_end w > segment_start)
                            sorted_words
                    in if segment_words \<noteq> [] then
                         [\<lparr>ts_speaker = speaker, ts_start_time = segment_start,
                           ts_end_time = segment_end,
                           ts_text = py_join '' '' (map get_word_text (sort_key get_start segment_words)),
                           ts_words = sort_key get_start segment_words\<rparr>]
                       else []))
              diarization_segments)))"

text \<open>
  An instance of \<open>SimplifiedTranscriptStitcher\<close> has the attributes that \<open>__init__\<close>
  assigns, \<open>full_diarization_segments\<close> and \<open>chunks\<close>; \<open>load_chunks_data\<close> assigns the
  same two, from the keys \<open>full_audio_diarization_segments\<close> and \<open>chunks\<close> of the chunks
  file. A chunk is given by what \<open>stitch_chunks\<close> reads of it: the word list of its
  transcription result, empty when the chunk has none.
\<close>

type_synonym chunk = "word list"

record stitcher =
  self_full_diarization_segments :: "diarization_segment list"
  self_chunks :: "chunk list"

definition SimplifiedTranscriptStitcher_init :: stitcher where
  "SimplifiedTranscriptStitcher_init =
     \<lparr>self_full_diarization_segments = [], self_chunks = []\<rparr>"

definition load_chunks_data :: "chunk list \<Rightarrow> diarization_segment list \<Rightarrow> stitcher \<Rightarrow> stitcher" where
  "load_chunks_data data_chunks data_full_audio_diarization_segments self =
     self\<lparr>self_chunks := data_chunks,
          self_full_diarization_segments := data_full_audio_diarization_segments\<rparr>"

text \<open>
  Reading an attribute that holds diarization segments: a name that was never assigned raises
  \<open>AttributeError\<close>.
\<close>

definition getattr_segments :: "stitcher \<Rightarrow> string \<Rightarrow> error + diarization_segment list" where
  "getattr_segments self name =
     (if name = ''full_diarization_segments'' then Inr (self_full_diarization_segments self)
      else Inl AttributeError)"

text \<open>
  \<open>map_chunk_to_full_diarization\<close>, as far as \<open>stitch_chunks\<close> reads its result: the
  \<open>words\<close> and the \<open>diarized_transcript\<close> of the updated transcription result.
\<close>

definition map_chunk_to_full_diarization ::
  "stitcher \<Rightarrow> chunk \<Rightarrow> word list \<times> transcript_segment list"
where
  "map_chunk_to_full_diarization self chunk =
     (let mapped_words = map_words_to_speakers (self_full_diarization_segments self) chunk;
          diarized_transcript = create_diarized_transcript_from_words mapped_words
      in (mapped_words, diarized_transcript))"

text \<open>
  The result of \<open>stitch_chunks\<close>, with the entries \<open>merged_text\<close>,
  \<open>diarized_transcript\<close>, \<open>timestamps\<close> and \<open>word_count\<close>.
\<close>

record stitched_transcript =
  r_merged_text :: string
  r_diarized_transcript :: "transcript_segment list"
  r_timestamps :: "word list"
  r_word_count :: nat

text \<open>
  \<open>stitch_chunks\<close>. After the words of all chunks are mapped, sorted and joined, line 394
  reads \<open>self.full_audio_diarization_segments\<close>.
\<close>

definition stitch_chunks :: "stitcher \<Rightarrow> error + stitched_transcript" where
  "stitch_chunks self =
     (let mapped_chunks = map (map_chunk_to_full_diarization self) (self_chunks self);
          all_words = sort_key get_start (concat (map fst mapped_chunks));
          merged_text = py_join '' '' (map get_word_text all_words)
      in case getattr_segments self ''full_audio_diarization_segments'' of
           Inl e \<Rightarrow> Inl e
         | Inr full_audio_diarization_segments \<Rightarrow>
             (let final_diarized_transcript =
                    (if full_audio_diarization_segments \<noteq> [] \<and> all_words \<noteq> []
                     then map_words_to_diarization_segments all_words
                            full_audio_diarization_segments
                     else create_diarized_transcript_from_words all_words)
              in Inr \<lparr>r_merged_text = merged_text,
                       r_diarized_transcript = final_diarized_transcript,
                       r_timestamps = all_words,
                       r_word_count = length all_words\<rparr>))"

section \<open>Text-only reassembly\<close>

subsection \<open>transcript\_stitcher.py\<close>

text \<open>
  A transcript is a list of characters with the code points 0 to 255. Whitespace is what
  \<open>str.strip\<close> and the pattern \<open>\s\<close> take for it in that range; the sentence
  terminators are the characters of the class \<open>[.!?]\<close>.
\<close>

definition is_space :: "char \<Rightarrow> bool" where
  "is_space c \<longleftrightarrow>
     c \<in> set [CHR '' '', CHR 0x09, CHR 0x0A, CHR 0x0B, CHR 0x0C, CHR 0x0D,
                CHR 0x1C, CHR 0x1D, CHR 0x1E, CHR 0x1F, CHR 0x85, CHR 0xA0]"

definition is_terminal :: "char \<Rightarrow> bool" where
  "is_terminal c \<longleftrightarrow> c = CHR ''.'' \<or> c = CHR ''!'' \<or> c = CHR ''?''"

definition py_strip :: "string \<Rightarrow> string" where
  "py_strip s = rev (dropWhile is_space (rev (dropWhile is_space s)))"

text \<open>
  \<open>re.split(r'[.!?]+', text)\<close>: the pieces between the maximal runs of terminators;
  \<open>current\<close> is the piece being read.
\<close>

function re_split_terminals :: "string \<Rightarrow> string \<Rightarrow> string list" where
  "re_split_terminals current [] = [current]"
| "re_split_terminals current (c # cs) =
     (if is_terminal c then current # re_split_terminals [] (dropWhile is_terminal cs)
      else re_split_terminals (current @ [c]) cs)"
  by pat_completeness auto
termination
  by (relation "measure (\<lambda>(current, s). length s)")
     (auto simp: le_imp_less_Suc length_dropWhile_le)

text \<open>\<open>re.sub(r'\s+', ' ', s)\<close>: every maximal run of whitespace becomes one space.\<close>

function collapse_whitespace :: "string \<Rightarrow> string" where
  "collapse_whitespace [] = []"
| "collapse_whitespace (c # cs) =
     (if is_space c then CHR '' '' # collapse_whitespace (dropWhile is_space cs)
      else c # collapse_whitespace cs)"
  by pat_completeness auto
termination
  by (relation "measure length") (auto simp: le_imp_less_Suc length_dropWhile_le)

text \<open>
  \<open>re.sub(r'([.!?])\s*', r'\1 ', s)\<close>: every terminator, with the whitespace after it,
  becomes the terminator and one space.
\<close>

function space_after_terminals :: "string \<Rightarrow> string" where
  "space_after_terminals [] = []"
| "space_after_terminals (c # cs) =
     (if is_terminal c then c # CHR '' '' # space_after_terminals (dropWhile is_space cs)
      else c # space_after_terminals cs)"
  by pat_completeness auto
termination
  by (relation "measure length") (auto simp: le_imp_less_Suc length_dropWhile_le)

definition clean_transcript_text :: "string \<Rightarrow> string" where
  "clean_transcript_text text_in =
     (if text_in = [] then []
      else py_strip (space_after_terminals (collapse_whitespace (py_strip text_in))))"

text \<open>
  \<open>s.find(sub)\<close>: the least index at which \<open>sub\<close> occurs in \<open>s\<close>, or \<open>-1\<close>;
  \<open>sub in s\<close> holds when there is one.
\<close>

fun find_at :: "string \<Rightarrow> string \<Rightarrow> nat option" where
  "find_at sub [] = (if sub = [] then Some 0 else None)"
| "find_at sub (c # cs) =
     (if take (length sub) (c # cs) = sub then Some 0 else map_option Suc (find_at sub cs))"

definition py_find :: "string \<Rightarrow> string \<Rightarrow> int" where
  "py_find s sub = (case find_at sub s of None \<Rightarrow> - 1 | Some i \<Rightarrow> int i)"

definition py_in :: "string \<Rightarrow> string \<Rightarrow> bool" where
  "py_in sub s \<longleftrightarrow> find_at sub s \<noteq> None"

text \<open>
  The sentences of a chunk, as \<open>detect_overlap_boundary\<close> computes \<open>chunk1_sentences\<close>,
  and the last three of them (the last two when there are only two), \<open>search_sentences\<close>.
\<close>

definition chunk_sentences :: "string \<Rightarrow> string list" where
  "chunk_sentences chunk1_text =
     map py_strip (filter (\<lambda>s. py_strip s \<noteq> []) (re_split_terminals [] chunk1_text))"

definition search_sentences_of :: "string list \<Rightarrow> string list" where
  "search_sentences_of chunk1_sentences =
     (if length chunk1_sentences \<ge> 3 then py_slice_from chunk1_sentences (- 3)
      else py_slice_from chunk1_sentences (- 2))"

text \<open>
  \<open>detect_overlap_boundary\<close>: \<open>None\<close> when the first chunk has fewer than two sentences;
  the end of the first occurrence in chunk 2 of the first search sentence, in their order, that
  occurs in the leading part of chunk 2; otherwise the estimate. \<open>overlap_duration * 7.5\<close>
  is computed in exact arithmetic.
\<close>

definition detect_overlap_boundary :: "string \<Rightarrow> string \<Rightarrow> int \<Rightarrow> int option" where
  "detect_overlap_boundary chunk1_text chunk2_text overlap_duration =
     (let chunk1_sentences = chunk_sentences chunk1_text in
      if length chunk1_sentences < 2 then None
      else
        (let search_sentences = search_sentences_of chunk1_sentences;
             search_text = py_strip (py_join '' '' search_sentences);
             chunk2_start = take (length search_text + 100) chunk2_text
         in case find (\<lambda>sentence. py_in sentence chunk2_start) search_sentences of
              Some sentence \<Rightarrow> Some (py_find chunk2_text sentence + int (length sentence))
            | None \<Rightarrow>
                Some (min (py_int (real_of_int overlap_duration * 7.5))
                          (int (length chunk2_text) div 4))))"

text \<open>
  One round of the \<open>for\<close> loop of \<open>stitch_transcript_chunks\<close>, for the chunk with index
  \<open>i\<close>. The chunk transcripts are strings, which \<open>extract_text_from_transcript\<close>
  returns as they are.
\<close>

definition stitch_step :: "int \<Rightarrow> string list \<Rightarrow> string \<Rightarrow> nat \<Rightarrow> string" where
  "stitch_step overlap_duration texts stitched_text i =
     (let chunk_text = clean_transcript_text (texts ! i) in
      if i = 0 then chunk_text
      else
        (let previous_text = clean_transcript_text (texts ! (i - 1));
             overlap_end = detect_overlap_boundary previous_text chunk_text overlap_duration;
             chunk_text_trimmed =
               (case overlap_end of
                  Some e \<Rightarrow> py_strip (py_slice_from chunk_text e)
                | None \<Rightarrow> chunk_text)
         in if stitched_text \<noteq> [] \<and> chunk_text_trimmed \<noteq> [] then
              stitched_text @
              (if \<not> is_terminal (last stitched_text) then ''. '' else '' '') @
              chunk_text_trimmed
            else stitched_text))"

text \<open>
  \<open>stitch_transcript_chunks\<close>: the text written to the output file.
\<close>

definition stitch_transcript_chunks :: "int \<Rightarrow> string list \<Rightarrow> error + string" where
  "stitch_transcript_chunks overlap_duration texts =
     (if length texts = 0 then Inl NoTranscriptChunks
      else if length texts = 1 then Inr (clean_transcript_text (texts ! 0))
      else Inr (clean_transcript_text
                  (foldl (stitch_step overlap_duration texts) [] [0 ..< length texts])))"

section \<open>Proof devices\<close>

text \<open>
  The body of each planning loop, named piece by piece, and the shape of a finished plan.
\<close>

definition smart_split :: "int \<Rightarrow> int \<Rightarrow> int \<Rightarrow> int list \<Rightarrow> int \<Rightarrow> int \<Rightarrow> int" where
  "smart_split target_chunk_duration max_deviation sample_rate silence_boundaries total_samples current_start =
     (if current_start + target_chunk_duration * sample_rate \<ge> total_samples then total_samples
      else find_optimal_split_point max_deviation (current_start + target_chunk_duration * sample_rate)
             silence_boundaries sample_rate)"

definition smart_end :: "int \<Rightarrow> int \<Rightarrow> int \<Rightarrow> int \<Rightarrow> int" where
  "smart_end overlap_duration sample_rate total_samples actual_end_sample =
     (if actual_end_sample < total_samples
      then min (actual_end_sample + overlap_duration * sample_rate) total_samples
      else actual_end_sample)"

definition smart_entry ::
  "int \<Rightarrow> int \<Rightarrow> int \<Rightarrow> int \<Rightarrow> int list \<Rightarrow> 'a list \<Rightarrow> int \<Rightarrow> int \<Rightarrow> 'a smart_chunk_info" where
  "smart_entry t ov d sr bs audio i s =
     \<lparr>index = i, start_sample = s,
      end_sample = smart_end ov sr (int (length audio)) (smart_split t d sr bs (int (length audio)) s),
      chunk_data = py_slice audio s
         (smart_end ov sr (int (length audio)) (smart_split t d sr bs (int (length audio)) s)),
      actual_split_sample = smart_split t d sr bs (int (length audio)) s\<rparr>"

fun plan_chain :: "(int \<Rightarrow> int \<Rightarrow> 'c) \<Rightarrow> (int \<Rightarrow> int) \<Rightarrow> int \<Rightarrow> int \<Rightarrow> int \<Rightarrow> 'c list \<Rightarrow> bool" where
  "plan_chain mk nxt n i s [] = (\<not> s < n)"
| "plan_chain mk nxt n i s (c # cs) = (s < n \<and> c = mk i s \<and> plan_chain mk nxt n (i + 1) (nxt s) cs)"

definition split_inv :: "int \<Rightarrow> int \<Rightarrow> int list \<Rightarrow> int \<Rightarrow> bool" where
  "split_inv d sr bs s = (s \<in> set bs \<or> (\<forall>b\<in>set bs. \<not> \<bar>b - s\<bar> \<le> d * sr))"

definition detector_ok :: "(int \<times> int) list option \<Rightarrow> 'a list \<Rightarrow> bool" where
  "detector_ok detected audio =
     (case detected of
        None \<Rightarrow> True
      | Some ivs \<Rightarrow> list_all (\<lambda>iv. 0 \<le> fst iv \<and> fst iv \<le> int (length audio) \<and>
                         0 \<le> snd iv \<and> snd iv \<le> int (length audio)) ivs)"

definition perfect_end :: "int \<Rightarrow> int \<Rightarrow> int \<Rightarrow> int \<Rightarrow> int" where
  "perfect_end chunk_samples overlap_samples total_samples s =
     (if s + chunk_samples < total_samples
      then min (s + chunk_samples + overlap_samples) total_samples
      else total_samples)"

definition perfect_entry :: "int \<Rightarrow> int \<Rightarrow> 'a list \<Rightarrow> int \<Rightarrow> int \<Rightarrow> 'a chunk_info" where
  "perfect_entry cs ov audio i s =
     \<lparr>index = i, start_sample = s, end_sample = perfect_end cs ov (int (length audio)) s,
      chunk_data = py_slice audio s (perfect_end cs ov (int (length audio)) s)\<rparr>"

definition trim_and_fade :: "int \<Rightarrow> audio_file \<Rightarrow> (real list list \<times> nat) option" where
  "trim_and_fade overlap_duration f =
     (if int (length (data f)) > overlap_duration * samplerate f then
        Some (let trimmed_data = py_slice_from (data f) (overlap_duration * samplerate f);
                  fade_samples = min (py_int (50 / 1000 * real_of_int (samplerate f)))
                                     (int (length trimmed_data))
              in if fade_samples > 0 then apply_fade fade_samples trimmed_data else trimmed_data,
              channels f)
      else None)"

definition kept_piece :: "int \<Rightarrow> audio_file \<Rightarrow> real list list" where
  "kept_piece overlap_duration f =
     apply_fade (min (py_int (50 / 1000 * real_of_int (samplerate f)))
                     (int (length (data f) - nat (overlap_duration * samplerate f))))
       (drop (nat (overlap_duration * samplerate f)) (data f))"

text \<open>The part of chunk 2 that \<open>detect_overlap_boundary\<close> searches.\<close>

definition leading_text :: "string \<Rightarrow> string \<Rightarrow> string" where
  "leading_text chunk1_text chunk2_text =
     take (length (py_strip (py_join '' '' (search_sentences_of (chunk_sentences chunk1_text)))) + 100)
       chunk2_text"

text \<open>
  The boundary as the specification words it: the longest of the search sentences is looked for
  in the leading text of chunk 2; the estimate is used when it does not occur there.
\<close>

definition longest_sentence :: "string list \<Rightarrow> string" where
  "longest_sentence sentences =
     foldl (\<lambda>best sentence. if length best < length sentence then sentence else best)
       (hd sentences) (tl sentences)"

definition longest_sentence_boundary :: "string \<Rightarrow> string \<Rightarrow> int \<Rightarrow> int option" where
  "longest_sentence_boundary chunk1_text chunk2_text overlap_duration =
     (let search_sentences = search_sentences_of (chunk_sentences chunk1_text);
          longest = longest_sentence search_sentences
      in if search_sentences \<noteq> [] \<and> py_in longest (leading_text chunk1_text chunk2_text)
         then Some (py_find chunk2_text longest + int (length longest))
         else Some (min (py_int (real_of_int overlap_duration * 7.5))
                        (int (length chunk2_text) div 4)))"

text \<open>
  The boundary as the comment in \<open>detect_overlap_boundary\<close> words it, "the last complete
  sentence in chunk1 that appears at the start of chunk2": the last of the search sentences
  that occurs in the leading text of chunk 2.
\<close>

definition last_sentence_boundary :: "string \<Rightarrow> string \<Rightarrow> int \<Rightarrow> int option" where
  "last_sentence_boundary chunk1_text chunk2_text overlap_duration =
     (let search_sentences = search_sentences_of (chunk_sentences chunk1_text)
      in case find (\<lambda>sentence. py_in sentence (leading_text chunk1_text chunk2_text))
                (rev search_sentences) of
           Some sentence \<Rightarrow> Some (py_find chunk2_text sentence + int (length sentence))
         | None \<Rightarrow>
             Some (min (py_int (real_of_int overlap_duration * 7.5))
                       (int (length chunk2_text) div 4)))"

section \<open>Chunk planning: lemmas\<close>

lemma silence_split_loop_unfold:
  "silence_split_loop cap t ov d sr bs audio chunks i s =
     (if s < int (length audio) then
        if i + 1 > cap then Inl TooManyChunks
        else silence_split_loop cap t ov d sr bs audio (chunks @ [smart_entry t ov d sr bs audio i s])
               (i + 1) (smart_split t d sr bs (int (length audio)) s)
      else Inr chunks)"
  by (subst silence_split_loop.simps)
     (simp add: Let_def smart_entry_def smart_split_def smart_end_def)

lemma plan_chain_nth:
  "plan_chain mk nxt n i s cs \<Longrightarrow> k < length cs \<Longrightarrow>
   \<exists>u. u < n \<and> cs ! k = mk (i + int k) u \<and> (k = 0 \<longrightarrow> u = s) \<and>
       (Suc k < length cs \<longrightarrow> cs ! Suc k = mk (i + int k + 1) (nxt u) \<and> nxt u < n) \<and>
       (Suc k = length cs \<longrightarrow> \<not> nxt u < n)"
proof (induction cs arbitrary: i s k)
  case Nil
  then show ?case by simp
next
  case (Cons c cs)
  show ?case
  proof (cases k)
    case 0
    then show ?thesis using Cons.prems by (cases cs) auto
  next
    case (Suc j)
    with Cons.prems have "plan_chain mk nxt n (i + 1) (nxt s) cs" "j < length cs" by auto
    from Cons.IH[OF this] Suc show ?thesis by (auto simp: algebra_simps)
  qed
qed

lemma silence_split_loop_stall:
  "s < int (length audio) \<Longrightarrow> smart_split t d sr bs (int (length audio)) s = s \<Longrightarrow>
   silence_split_loop cap t ov d sr bs audio chunks i s = Inl TooManyChunks"
proof (induction "nat (cap + 1 - i)" arbitrary: i chunks rule: less_induct)
  case less
  show ?case
  proof (cases "i + 1 > cap")
    case True
    then show ?thesis using less.prems by (subst silence_split_loop_unfold) simp
  next
    case False
    then have "nat (cap + 1 - (i + 1)) < nat (cap + 1 - i)" by simp
    from less.hyps[OF this less.prems]
    show ?thesis using less.prems False by (subst silence_split_loop_unfold) simp
  qed
qed

lemma silence_split_loop_chain:
  "silence_split_loop cap t ov d sr bs audio chunks i s = Inr plan \<Longrightarrow>
   \<exists>new. plan = chunks @ new \<and>
         plan_chain (smart_entry t ov d sr bs audio) (smart_split t d sr bs (int (length audio)))
           (int (length audio)) i s new \<and>
         (new = [] \<or> i + int (length new) \<le> cap)"
proof (induction "nat (cap + 1 - i)" arbitrary: i s chunks rule: less_induct)
  case less
  let ?n = "int (length audio)"
  let ?a = "smart_split t d sr bs ?n s"
  let ?c = "smart_entry t ov d sr bs audio i s"
  show ?case
  proof (cases "s < ?n")
    case False
    with less.prems have "plan = chunks" by (subst (asm) silence_split_loop_unfold) simp
    with False show ?thesis by simp
  next
    case True
    from True less.prems have le: "\<not> i + 1 > cap"
      by (subst (asm) silence_split_loop_unfold) (simp split: if_splits)
    from True le less.prems have rec:
      "silence_split_loop cap t ov d sr bs audio (chunks @ [?c]) (i + 1) ?a = Inr plan"
      by (subst (asm) silence_split_loop_unfold) simp
    from le have "nat (cap + 1 - (i + 1)) < nat (cap + 1 - i)" by simp
    from less.hyps[OF this rec] obtain new where
      "plan = (chunks @ [?c]) @ new"
      "plan_chain (smart_entry t ov d sr bs audio) (smart_split t d sr bs ?n) ?n (i + 1) ?a new"
      "new = [] \<or> i + 1 + int (length new) \<le> cap" by blast
    then show ?thesis using True le
      by (intro exI[of _ "?c # new"]) auto
  qed
qed

lemma py_min_key_in: "py_min_key f b bs \<in> set (b # bs)"
  unfolding py_min_key_def
  by (induction bs arbitrary: b) auto

lemma py_min_key_le: "x \<in> set (b # bs) \<Longrightarrow> f (py_min_key f b bs) \<le> f x"
  unfolding py_min_key_def
proof (induction bs arbitrary: b x)
  case Nil
  then show ?case by simp
next
  case (Cons a bs)
  have start: "f (foldl (\<lambda>best x. if f x < f best then x else best) c bs) \<le> f c" for c
    using Cons.IH[of c c] by simp
  show ?case
  proof (cases "x \<in> set bs")
    case True
    then show ?thesis using Cons.IH[of x "if f a < f b then a else b"] by simp
  next
    case False
    then have "x = b \<or> x = a" using Cons.prems by auto
    then show ?thesis
      using start[of "if f a < f b then a else b"] by (auto split: if_splits)
  qed
qed

lemma find_optimal_split_point_cases:
  "(find_optimal_split_point d t bs sr = t \<and> (\<forall>b\<in>set bs. \<not> \<bar>b - t\<bar> \<le> d * sr)) \<or>
   (find_optimal_split_point d t bs sr \<in> set bs \<and>
    \<bar>find_optimal_split_point d t bs sr - t\<bar> \<le> d * sr \<and>
    (\<forall>b\<in>set bs. \<bar>b - t\<bar> \<le> d * sr \<longrightarrow> \<bar>find_optimal_split_point d t bs sr - t\<bar> \<le> \<bar>b - t\<bar>))"
proof (cases "filter (\<lambda>b. \<bar>b - t\<bar> \<le> d * sr) bs")
  case Nil
  then have "\<forall>b\<in>set bs. \<not> \<bar>b - t\<bar> \<le> d * sr" by (simp add: filter_empty_conv)
  with Nil show ?thesis by (simp add: find_optimal_split_point_def)
next
  case (Cons v vs)
  let ?r = "py_min_key (\<lambda>x. \<bar>x - t\<bar>) v vs"
  have r: "find_optimal_split_point d t bs sr = ?r"
    using Cons by (simp add: find_optimal_split_point_def)
  have "?r \<in> set (filter (\<lambda>b. \<bar>b - t\<bar> \<le> d * sr) bs)"
    using py_min_key_in[of "\<lambda>x. \<bar>x - t\<bar>" v vs] Cons by simp
  then have in_bs: "?r \<in> set bs" and ok: "\<bar>?r - t\<bar> \<le> d * sr" by auto
  have "\<bar>?r - t\<bar> \<le> \<bar>b - t\<bar>" if "b \<in> set bs" "\<bar>b - t\<bar> \<le> d * sr" for b
  proof -
    from that have "b \<in> set (v # vs)" using Cons[symmetric] by simp
    then show ?thesis by (rule py_min_key_le)
  qed
  with r in_bs ok show ?thesis by simp
qed

lemma smart_split_ge:
  assumes "0 < t * sr" "s < n" "split_inv d sr bs s"
  shows "s \<le> smart_split t d sr bs n s"
proof (cases "s + t * sr \<ge> n")
  case True
  then show ?thesis using assms by (simp add: smart_split_def)
next
  case False
  let ?r = "find_optimal_split_point d (s + t * sr) bs sr"
  have eq: "smart_split t d sr bs n s = ?r" using False by (simp add: smart_split_def)
  from find_optimal_split_point_cases[of d "s + t * sr" bs sr]
  show ?thesis
  proof
    assume "?r = s + t * sr \<and> (\<forall>b\<in>set bs. \<not> \<bar>b - (s + t * sr)\<bar> \<le> d * sr)"
    then show ?thesis using eq assms(1) by simp
  next
    assume a: "?r \<in> set bs \<and> \<bar>?r - (s + t * sr)\<bar> \<le> d * sr \<and>
      (\<forall>b\<in>set bs. \<bar>b - (s + t * sr)\<bar> \<le> d * sr \<longrightarrow> \<bar>?r - (s + t * sr)\<bar> \<le> \<bar>b - (s + t * sr)\<bar>)"
    show ?thesis
    proof (rule ccontr)
      assume "\<not> s \<le> smart_split t d sr bs n s"
      then have lt: "?r < s" using eq by simp
      show False
      proof (cases "s \<in> set bs")
        case True
        have "\<bar>s - (s + t * sr)\<bar> \<le> d * sr" using a lt assms(1) by linarith
        with a True have "\<bar>?r - (s + t * sr)\<bar> \<le> \<bar>s - (s + t * sr)\<bar>" by blast
        then show False using lt assms(1) by linarith
      next
        case False
        with assms(3) have "\<not> \<bar>?r - s\<bar> \<le> d * sr" using a by (auto simp: split_inv_def)
        then show False using a lt assms(1) by linarith
      qed
    qed
  qed
qed

lemma smart_split_inv:
  assumes "smart_split t d sr bs n s < n"
  shows "split_inv d sr bs (smart_split t d sr bs n s)"
proof (cases "s + t * sr \<ge> n")
  case True
  then show ?thesis using assms by (simp add: smart_split_def)
next
  case False
  then have eq: "smart_split t d sr bs n s = find_optimal_split_point d (s + t * sr) bs sr"
    by (simp add: smart_split_def)
  from find_optimal_split_point_cases[of d "s + t * sr" bs sr]
  show ?thesis unfolding eq split_inv_def by auto
qed

lemma silence_split_loop_progress:
  "silence_split_loop cap t ov d sr bs audio chunks i s = Inr plan \<Longrightarrow>
   0 < t * sr \<Longrightarrow> (s < int (length audio) \<longrightarrow> split_inv d sr bs s) \<Longrightarrow>
   \<exists>new. plan = chunks @ new \<and> (\<forall>c\<in>set new. start_sample c < actual_split_sample c)"
proof (induction "nat (cap + 1 - i)" arbitrary: i s chunks rule: less_induct)
  case less
  let ?n = "int (length audio)"
  let ?a = "smart_split t d sr bs ?n s"
  let ?c = "smart_entry t ov d sr bs audio i s"
  show ?case
  proof (cases "s < ?n")
    case False
    with less.prems have "plan = chunks" by (subst (asm) silence_split_loop_unfold) simp
    then show ?thesis by simp
  next
    case True
    from True less.prems have le: "\<not> i + 1 > cap"
      by (subst (asm) silence_split_loop_unfold) (simp split: if_splits)
    from True le less.prems have rec:
      "silence_split_loop cap t ov d sr bs audio (chunks @ [?c]) (i + 1) ?a = Inr plan"
      by (subst (asm) silence_split_loop_unfold) simp
    have "?a \<noteq> s"
      using silence_split_loop_stall[OF True, of t d sr bs cap ov chunks i] less.prems(1) by auto
    moreover have "s \<le> ?a" using smart_split_ge[OF less.prems(2) True] less.prems(3) True by simp
    ultimately have adv: "s < ?a" by simp
    have inv: "?a < ?n \<longrightarrow> split_inv d sr bs ?a" using smart_split_inv by blast
    from le have "nat (cap + 1 - (i + 1)) < nat (cap + 1 - i)" by simp
    from less.hyps[OF this rec less.prems(2) inv] obtain new where
      "plan = (chunks @ [?c]) @ new"
      "\<forall>c\<in>set new. start_sample c < actual_split_sample c" by blast
    then show ?thesis using adv
      by (intro exI[of _ "?c # new"]) (auto simp: smart_entry_def)
  qed
qed

lemma find_silence_boundaries_zero: "0 \<in> set (find_silence_boundaries detected audio)"
  by (cases detected) (simp_all add: find_silence_boundaries_def)

lemma find_silence_boundaries_range:
  assumes "detector_ok detected audio" "b \<in> set (find_silence_boundaries detected audio)"
  shows "0 \<le> b \<and> b \<le> int (length audio)"
proof (cases detected)
  case None
  with assms(2) show ?thesis by (auto simp: find_silence_boundaries_def)
next
  case (Some ivs)
  have iv: "0 \<le> fst (ivs ! j) \<and> fst (ivs ! j) \<le> int (length audio) \<and>
            0 \<le> snd (ivs ! j) \<and> snd (ivs ! j) \<le> int (length audio)" if "j < length ivs" for j
    using assms(1) that Some by (simp add: detector_ok_def list_all_length)
  from assms(2) Some have
    "b \<in> set ([0] @ map (\<lambda>i. (snd (ivs ! i) + fst (ivs ! (i + 1))) div 2) [0 ..< length ivs - 1] @
              [int (length audio)])"
    unfolding find_silence_boundaries_def by (simp only: option.simps set_sort set_remdups)
  then consider "b = 0" | "b = int (length audio)" |
    j where "j < length ivs - 1" "b = (snd (ivs ! j) + fst (ivs ! (j + 1))) div 2"
    by auto
  then show ?thesis
  proof cases
    case 3
    then have "j < length ivs" "j + 1 < length ivs" by auto
    from iv[OF this(1)] iv[OF this(2)] 3(2) show ?thesis by auto
  qed auto
qed

lemma smart_split_le:
  assumes "\<forall>b\<in>set bs. b \<le> n"
  shows "smart_split t d sr bs n s \<le> n"
proof (cases "s + t * sr \<ge> n")
  case True
  then show ?thesis by (simp add: smart_split_def)
next
  case False
  then have eq: "smart_split t d sr bs n s = find_optimal_split_point d (s + t * sr) bs sr"
    by (simp add: smart_split_def)
  from find_optimal_split_point_cases[of d "s + t * sr" bs sr] assms False
  show ?thesis unfolding eq by auto
qed

lemma smart_plan_nth:
  fixes audio :: "'a list"
  assumes run: "silence_split_loop cap t ov d sr bs audio [] 0 0 = Inr plan"
    and pos: "0 < t * sr" and zero: "0 \<in> set bs" and k: "k < length plan"
  shows "\<exists>u. 0 \<le> u \<and> u < int (length audio) \<and> plan ! k = smart_entry t ov d sr bs audio (int k) u \<and>
           u < smart_split t d sr bs (int (length audio)) u \<and> (k = 0 \<longrightarrow> u = 0) \<and>
           (Suc k < length plan \<longrightarrow>
              plan ! Suc k = smart_entry t ov d sr bs audio (int k + 1)
                               (smart_split t d sr bs (int (length audio)) u) \<and>
              smart_split t d sr bs (int (length audio)) u < int (length audio)) \<and>
           (Suc k = length plan \<longrightarrow>
              \<not> smart_split t d sr bs (int (length audio)) u < int (length audio))"
proof -
  let ?n = "int (length audio)"
  let ?nxt = "smart_split t d sr bs ?n"
  let ?mk = "smart_entry t ov d sr bs audio"
  from silence_split_loop_chain[OF run] have chain: "plan_chain ?mk ?nxt ?n 0 0 plan" by auto
  have "split_inv d sr bs 0" using zero by (simp add: split_inv_def)
  with silence_split_loop_progress[OF run pos]
  have prog: "\<forall>c\<in>set plan. start_sample c < actual_split_sample c" by auto
  have shape: "\<exists>u. u < ?n \<and> plan ! j = ?mk (int j) u \<and> (j = 0 \<longrightarrow> u = 0) \<and>
       (Suc j < length plan \<longrightarrow> plan ! Suc j = ?mk (int j + 1) (?nxt u) \<and> ?nxt u < ?n) \<and>
       (Suc j = length plan \<longrightarrow> \<not> ?nxt u < ?n)" if "j < length plan" for j
    using plan_chain_nth[OF chain that] by simp
  have adv: "start_sample (plan ! j) < actual_split_sample (plan ! j)" if "j < length plan" for j
    using prog that by simp
  have nonneg: "j < length plan \<Longrightarrow> 0 \<le> start_sample (plan ! j)" for j
  proof (induction j)
    case 0
    with shape[of 0] show ?case by (auto simp: smart_entry_def)
  next
    case (Suc j)
    then have j: "j < length plan" by simp
    from shape[OF j] Suc.prems obtain u where
      "plan ! j = ?mk (int j) u" "plan ! Suc j = ?mk (int j + 1) (?nxt u)" by auto
    then have "start_sample (plan ! Suc j) = actual_split_sample (plan ! j)"
      by (simp add: smart_entry_def)
    with adv[OF j] Suc.IH[OF j] show ?case by simp
  qed
  from shape[OF k] obtain u where u: "u < ?n" "plan ! k = ?mk (int k) u" "k = 0 \<longrightarrow> u = 0"
    "Suc k < length plan \<longrightarrow> plan ! Suc k = ?mk (int k + 1) (?nxt u) \<and> ?nxt u < ?n"
    "Suc k = length plan \<longrightarrow> \<not> ?nxt u < ?n" by blast
  have "start_sample (plan ! k) = u" "actual_split_sample (plan ! k) = ?nxt u"
    using u(2) by (simp_all add: smart_entry_def)
  with adv[OF k] nonneg[OF k] have "0 \<le> u" "u < ?nxt u" by simp_all
  with u show ?thesis by blast
qed

lemma py_slice_nonneg:
  "0 \<le> a \<Longrightarrow> 0 \<le> b \<Longrightarrow> py_slice xs a b = take (nat (b - a)) (drop (nat a) xs)"
proof -
  assume a: "0 \<le> a" and b: "0 \<le> b"
  let ?n = "int (length xs)"
  have eq: "py_slice xs a b = take (nat (min b ?n - min a ?n)) (drop (nat (min a ?n)) xs)"
    using a b by (simp add: py_slice_def py_index_def Let_def)
  show ?thesis
  proof (cases "a \<le> ?n")
    case False
    then show ?thesis using a unfolding eq by simp
  next
    case True
    then have ma: "min a ?n = a" by simp
    show ?thesis
    proof (cases "b \<le> ?n")
      case True
      then show ?thesis unfolding eq ma by simp
    next
      case False
      then have "length (drop (nat a) xs) \<le> nat (min b ?n - a)"
        "length (drop (nat a) xs) \<le> nat (b - a)" using True a by auto
      then show ?thesis unfolding eq ma by simp
    qed
  qed
qed

lemma overlap_core:
  fixes s a e e' :: nat
  assumes "s \<le> a" "a \<le> e" "e \<le> length xs" "e \<le> e'"
  shows "drop (length (take (e - s) (drop s xs)) - (e - a)) (take (e - s) (drop s xs)) =
           take (e - a) (drop a xs)"
    and "take (e - a) (take (e' - a) (drop a xs)) = take (e - a) (drop a xs)"
proof -
  have len: "length (take (e - s) (drop s xs)) = e - s" using assms by simp
  have "e - s - (e - a) = a - s" using assms by simp
  then show "drop (length (take (e - s) (drop s xs)) - (e - a)) (take (e - s) (drop s xs)) =
           take (e - a) (drop a xs)"
    unfolding len using assms by (simp add: drop_take)
  show "take (e - a) (take (e' - a) (drop a xs)) = take (e - a) (drop a xs)"
    using assms by (simp add: min_def)
qed

lemma perfect_overlap_loop_unfold:
  "perfect_overlap_loop cs ov audio chunks i s =
     (if s < int (length audio) then
        if i + 1 > 1000 then Inl TooManyChunks
        else perfect_overlap_loop cs ov audio (chunks @ [perfect_entry cs ov audio i s]) (i + 1) (s + cs)
      else Inr chunks)"
  by (subst perfect_overlap_loop.simps) (simp add: Let_def perfect_entry_def perfect_end_def)

lemma perfect_overlap_loop_chain:
  "perfect_overlap_loop cs ov audio chunks i s = Inr plan \<Longrightarrow>
   \<exists>new. plan = chunks @ new \<and>
         plan_chain (perfect_entry cs ov audio) (\<lambda>s. s + cs) (int (length audio)) i s new \<and>
         (new = [] \<or> i + int (length new) \<le> 1000)"
proof (induction "nat (1001 - i)" arbitrary: i s chunks rule: less_induct)
  case less
  let ?n = "int (length audio)"
  let ?c = "perfect_entry cs ov audio i s"
  show ?case
  proof (cases "s < ?n")
    case False
    with less.prems have "plan = chunks" by (subst (asm) perfect_overlap_loop_unfold) simp
    with False show ?thesis by simp
  next
    case True
    from True less.prems have le: "\<not> i + 1 > 1000"
      by (subst (asm) perfect_overlap_loop_unfold) (simp split: if_splits)
    from True le less.prems have rec:
      "perfect_overlap_loop cs ov audio (chunks @ [?c]) (i + 1) (s + cs) = Inr plan"
      by (subst (asm) perfect_overlap_loop_unfold) simp
    from le have "nat (1001 - (i + 1)) < nat (1001 - i)" by simp
    from less.hyps[OF this rec] obtain new where
      "plan = (chunks @ [?c]) @ new"
      "plan_chain (perfect_entry cs ov audio) (\<lambda>s. s + cs) ?n (i + 1) (s + cs) new"
      "new = [] \<or> i + 1 + int (length new) \<le> 1000" by blast
    then show ?thesis using True le
      by (intro exI[of _ "?c # new"]) auto
  qed
qed

lemma perfect_plan_nth:
  fixes audio :: "'a list"
  assumes run: "perfect_overlap_loop cs ov audio [] 0 0 = Inr plan" and k: "k < length plan"
  shows "plan ! k = perfect_entry cs ov audio (int k) (int k * cs) \<and>
         int k * cs < int (length audio) \<and>
         (Suc k < length plan \<longrightarrow> int k * cs + cs < int (length audio)) \<and>
         (Suc k = length plan \<longrightarrow> \<not> int k * cs + cs < int (length audio))"
proof -
  let ?n = "int (length audio)"
  from perfect_overlap_loop_chain[OF run]
  have chain: "plan_chain (perfect_entry cs ov audio) (\<lambda>s. s + cs) ?n 0 0 plan" by auto
  have shape: "\<exists>u. u < ?n \<and> plan ! j = perfect_entry cs ov audio (int j) u \<and> (j = 0 \<longrightarrow> u = 0) \<and>
       (Suc j < length plan \<longrightarrow> plan ! Suc j = perfect_entry cs ov audio (int j + 1) (u + cs) \<and> u + cs < ?n) \<and>
       (Suc j = length plan \<longrightarrow> \<not> u + cs < ?n)" if "j < length plan" for j
    using plan_chain_nth[OF chain that] by simp
  have starts: "j < length plan \<Longrightarrow> start_sample (plan ! j) = int j * cs" for j
  proof (induction j)
    case 0
    with shape[of 0] show ?case by (auto simp: perfect_entry_def)
  next
    case (Suc j)
    then have j: "j < length plan" by simp
    from shape[OF j] Suc.prems obtain u where
      "plan ! j = perfect_entry cs ov audio (int j) u"
      "plan ! Suc j = perfect_entry cs ov audio (int j + 1) (u + cs)" by auto
    then have "start_sample (plan ! Suc j) = start_sample (plan ! j) + cs"
      by (simp add: perfect_entry_def)
    with Suc.IH[OF j] show ?case by (simp add: algebra_simps)
  qed
  from shape[OF k] obtain u where u: "u < ?n" "plan ! k = perfect_entry cs ov audio (int k) u"
    "Suc k < length plan \<longrightarrow> u + cs < ?n" "Suc k = length plan \<longrightarrow> \<not> u + cs < ?n" by blast
  from u(2) starts[OF k] have "u = int k * cs" by (simp add: perfect_entry_def)
  with u show ?thesis by simp
qed

lemma overlap_core_int:
  assumes "0 \<le> s" "s \<le> a" "a \<le> e" "e \<le> int (length xs)" "e \<le> e'"
  shows "drop (length (py_slice xs s e) - nat (e - a)) (py_slice xs s e) = py_slice xs a e"
    and "take (nat (e - a)) (py_slice xs a e') = py_slice xs a e"
proof -
  have n: "nat (e - s) = nat e - nat s" "nat (e - a) = nat e - nat a" "nat (e' - a) = nat e' - nat a"
    using assms by (simp_all add: nat_diff_distrib)
  have le: "nat s \<le> nat a" "nat a \<le> nat e" "nat e \<le> length xs" "nat e \<le> nat e'"
    using assms by simp_all
  have sl: "py_slice xs s e = take (nat e - nat s) (drop (nat s) xs)"
    "py_slice xs a e = take (nat e - nat a) (drop (nat a) xs)"
    "py_slice xs a e' = take (nat e' - nat a) (drop (nat a) xs)"
    using assms n by (simp_all add: py_slice_nonneg)
  show "drop (length (py_slice xs s e) - nat (e - a)) (py_slice xs s e) = py_slice xs a e"
    unfolding sl n by (rule overlap_core(1)[OF le])
  show "take (nat (e - a)) (py_slice xs a e') = py_slice xs a e"
    unfolding sl n by (rule overlap_core(2)[OF le])
qed

lemma perfect_run:
  "split_audio_with_perfect_overlap cd od sr audio = Inr plan \<Longrightarrow>
   perfect_overlap_loop (cd * sr) (od * sr) audio [] 0 0 = Inr plan"
  by (auto simp: split_audio_with_perfect_overlap_def split: sum.splits if_splits)

lemma perfect_plan_entry:
  fixes audio :: "'a list"
  assumes run: "split_audio_with_perfect_overlap cd od sr audio = Inr plan"
    and k: "k < length plan"
  shows "index (plan ! k) = int k"
    and "start_sample (plan ! k) = int k * (cd * sr)"
    and "start_sample (plan ! k) < int (length audio)"
    and "chunk_data (plan ! k) = py_slice audio (start_sample (plan ! k)) (end_sample (plan ! k))"
    and "Suc k < length plan \<Longrightarrow> start_sample (plan ! k) + cd * sr < int (length audio)"
    and "Suc k < length plan \<Longrightarrow>
           end_sample (plan ! k) = min (start_sample (plan ! k) + cd * sr + od * sr) (int (length audio))"
    and "Suc k = length plan \<Longrightarrow> int (length audio) \<le> start_sample (plan ! k) + cd * sr"
    and "Suc k = length plan \<Longrightarrow> end_sample (plan ! k) = int (length audio)"
  using perfect_plan_nth[OF perfect_run[OF run] k]
  by (auto simp: perfect_entry_def perfect_end_def)

lemma perfect_plan_overlap:
  fixes audio :: "'a list"
  assumes run: "split_audio_with_perfect_overlap cd od sr audio = Inr plan"
    and cfg: "0 \<le> od" "od < cd" "0 < sr"
    and k: "Suc k < length plan"
  shows "end_sample (plan ! k) - start_sample (plan ! Suc k) =
           min (od * sr) (int (length audio) - start_sample (plan ! Suc k))"
    and "drop (length (chunk_data (plan ! k)) - nat (end_sample (plan ! k) - start_sample (plan ! Suc k)))
           (chunk_data (plan ! k)) =
         py_slice audio (start_sample (plan ! Suc k)) (end_sample (plan ! k))"
    and "take (nat (end_sample (plan ! k) - start_sample (plan ! Suc k))) (chunk_data (plan ! Suc k)) =
         py_slice audio (start_sample (plan ! Suc k)) (end_sample (plan ! k))"
proof -
  let ?n = "int (length audio)"
  let ?T = "cd * sr"
  let ?V = "od * sr"
  let ?s = "start_sample (plan ! k)"
  let ?a = "start_sample (plan ! Suc k)"
  let ?e = "end_sample (plan ! k)"
  let ?e' = "end_sample (plan ! Suc k)"
  have k0: "k < length plan" using k by simp
  have T: "0 < ?T" and V: "0 \<le> ?V" using cfg by simp_all
  have s: "?s = int k * ?T" and a: "?a = ?s + ?T"
    using perfect_plan_entry(2)[OF run k0] perfect_plan_entry(2)[OF run k]
    by (simp_all add: algebra_simps)
  have s0: "0 \<le> ?s" using s T by simp
  have an: "?a < ?n" using perfect_plan_entry(5)[OF run k0 k] a by simp
  have e: "?e = min (?a + ?V) ?n" using perfect_plan_entry(6)[OF run k0 k] a by simp
  have e': "?e \<le> ?e'"
  proof (cases "Suc (Suc k) < length plan")
    case True
    from perfect_plan_entry(6)[OF run k True] e T show ?thesis by simp
  next
    case False
    then have "Suc (Suc k) = length plan" using k by simp
    from perfect_plan_entry(8)[OF run k this] e show ?thesis by simp
  qed
  show "?e - ?a = min ?V (?n - ?a)" using e by simp
  have ord: "?s \<le> ?a" "?a \<le> ?e" "?e \<le> ?n" using a T e V an by simp_all
  show "drop (length (chunk_data (plan ! k)) - nat (?e - ?a)) (chunk_data (plan ! k)) =
          py_slice audio ?a ?e"
    unfolding perfect_plan_entry(4)[OF run k0]
    by (rule overlap_core_int(1)[OF s0 ord e'])
  show "take (nat (?e - ?a)) (chunk_data (plan ! Suc k)) = py_slice audio ?a ?e"
    unfolding perfect_plan_entry(4)[OF run k]
    by (rule overlap_core_int(2)[OF s0 ord e'])
qed

lemma perfect_plan_empty:
  "split_audio_with_perfect_overlap cd od sr audio = Inr plan \<Longrightarrow> (plan = [] \<longleftrightarrow> audio = [])"
  by (drule perfect_run, subst (asm) perfect_overlap_loop_unfold)
     (auto split: if_splits dest!: perfect_overlap_loop_chain)

lemma smart_plan_entry:
  fixes audio :: "'a list"
  assumes run: "silence_split_loop cap t ov d sr (find_silence_boundaries detected audio) audio [] 0 0 = Inr plan"
    and pos: "0 < t * sr" and k: "k < length plan"
  shows "index (plan ! k) = int k"
    and "0 \<le> start_sample (plan ! k)"
    and "start_sample (plan ! k) < int (length audio)"
    and "start_sample (plan ! k) < actual_split_sample (plan ! k)"
    and "actual_split_sample (plan ! k) =
           (if start_sample (plan ! k) + t * sr \<ge> int (length audio) then int (length audio)
            else find_optimal_split_point d (start_sample (plan ! k) + t * sr)
                   (find_silence_boundaries detected audio) sr)"
    and "chunk_data (plan ! k) = py_slice audio (start_sample (plan ! k)) (end_sample (plan ! k))"
    and "k = 0 \<Longrightarrow> start_sample (plan ! k) = 0"
    and "Suc k < length plan \<Longrightarrow> actual_split_sample (plan ! k) < int (length audio)"
    and "Suc k < length plan \<Longrightarrow> start_sample (plan ! Suc k) = actual_split_sample (plan ! k)"
    and "Suc k < length plan \<Longrightarrow>
           end_sample (plan ! k) = min (actual_split_sample (plan ! k) + ov * sr) (int (length audio))"
    and "Suc k = length plan \<Longrightarrow> int (length audio) \<le> actual_split_sample (plan ! k)"
    and "Suc k = length plan \<Longrightarrow> end_sample (plan ! k) = actual_split_sample (plan ! k)"
    and "detector_ok detected audio \<Longrightarrow> actual_split_sample (plan ! k) \<le> int (length audio)"
proof -
  let ?bs = "find_silence_boundaries detected audio"
  let ?n = "int (length audio)"
  from smart_plan_nth[OF run pos find_silence_boundaries_zero k] obtain u where u:
    "0 \<le> u" "u < ?n" "plan ! k = smart_entry t ov d sr ?bs audio (int k) u"
    "u < smart_split t d sr ?bs ?n u" "k = 0 \<longrightarrow> u = 0"
    "Suc k < length plan \<longrightarrow>
       plan ! Suc k = smart_entry t ov d sr ?bs audio (int k + 1) (smart_split t d sr ?bs ?n u) \<and>
       smart_split t d sr ?bs ?n u < ?n"
    "Suc k = length plan \<longrightarrow> \<not> smart_split t d sr ?bs ?n u < ?n" by blast
  have st: "start_sample (plan ! k) = u" and sp: "actual_split_sample (plan ! k) = smart_split t d sr ?bs ?n u"
    and en: "end_sample (plan ! k) = smart_end ov sr ?n (smart_split t d sr ?bs ?n u)"
    and da: "chunk_data (plan ! k) = py_slice audio u (smart_end ov sr ?n (smart_split t d sr ?bs ?n u))"
    and ix: "index (plan ! k) = int k"
    using u(3) by (simp_all add: smart_entry_def)
  show "index (plan ! k) = int k" by (rule ix)
  show "0 \<le> start_sample (plan ! k)" "start_sample (plan ! k) < ?n" using st u by simp_all
  show "start_sample (plan ! k) < actual_split_sample (plan ! k)" using st sp u by simp
  show "actual_split_sample (plan ! k) =
           (if start_sample (plan ! k) + t * sr \<ge> ?n then ?n
            else find_optimal_split_point d (start_sample (plan ! k) + t * sr) ?bs sr)"
    unfolding sp st by (simp add: smart_split_def)
  show "chunk_data (plan ! k) = py_slice audio (start_sample (plan ! k)) (end_sample (plan ! k))"
    unfolding da st en ..
  show "k = 0 \<Longrightarrow> start_sample (plan ! k) = 0" using st u by simp
  show "Suc k < length plan \<Longrightarrow> actual_split_sample (plan ! k) < ?n" using sp u by simp
  show "Suc k < length plan \<Longrightarrow> start_sample (plan ! Suc k) = actual_split_sample (plan ! k)"
    using sp u(6) by (simp add: smart_entry_def)
  show "Suc k < length plan \<Longrightarrow>
           end_sample (plan ! k) = min (actual_split_sample (plan ! k) + ov * sr) ?n"
    using sp en u(6) by (simp add: smart_end_def)
  show "Suc k = length plan \<Longrightarrow> ?n \<le> actual_split_sample (plan ! k)" using sp u(7) by simp
  show "Suc k = length plan \<Longrightarrow> end_sample (plan ! k) = actual_split_sample (plan ! k)"
    using sp en u(7) by (simp add: smart_end_def)
  show "detector_ok detected audio \<Longrightarrow> actual_split_sample (plan ! k) \<le> ?n"
    unfolding sp using smart_split_le[of ?bs ?n] find_silence_boundaries_range[of detected audio]
    by blast
qed

lemma smart_plan_overlap:
  fixes audio :: "'a list"
  assumes run: "silence_split_loop cap t ov d sr (find_silence_boundaries detected audio) audio [] 0 0 = Inr plan"
    and cfg: "0 \<le> ov" "ov < t" "0 < sr"
    and k: "Suc k < length plan"
  shows "end_sample (plan ! k) - start_sample (plan ! Suc k) =
           min (ov * sr) (int (length audio) - start_sample (plan ! Suc k))"
    and "drop (length (chunk_data (plan ! k)) - nat (end_sample (plan ! k) - start_sample (plan ! Suc k)))
           (chunk_data (plan ! k)) =
         py_slice audio (start_sample (plan ! Suc k)) (end_sample (plan ! k))"
    and "take (nat (end_sample (plan ! k) - start_sample (plan ! Suc k))) (chunk_data (plan ! Suc k)) =
         py_slice audio (start_sample (plan ! Suc k)) (end_sample (plan ! k))"
proof -
  let ?n = "int (length audio)"
  let ?V = "ov * sr"
  let ?s = "start_sample (plan ! k)"
  let ?a = "start_sample (plan ! Suc k)"
  let ?e = "end_sample (plan ! k)"
  let ?e' = "end_sample (plan ! Suc k)"
  have k0: "k < length plan" using k by simp
  have pos: "0 < t * sr" and V: "0 \<le> ?V" using cfg by simp_all
  note E = smart_plan_entry[OF run pos k0] and E' = smart_plan_entry[OF run pos k]
  have a: "?a = actual_split_sample (plan ! k)" using E(9)[OF k] .
  have s0: "0 \<le> ?s" and sa: "?s \<le> ?a" and an: "?a < ?n" using E(2) E(4) E(8)[OF k] a by simp_all
  have e: "?e = min (?a + ?V) ?n" using E(10)[OF k] a by simp
  have e': "?e \<le> ?e'"
  proof (cases "Suc (Suc k) < length plan")
    case True
    from E'(10)[OF True] E'(4) e show ?thesis by simp
  next
    case False
    then have "Suc (Suc k) = length plan" using k by simp
    from E'(11)[OF this] E'(12)[OF this] e show ?thesis by simp
  qed
  show "?e - ?a = min ?V (?n - ?a)" using e by simp
  have ord: "?a \<le> ?e" "?e \<le> ?n" using e V an by simp_all
  show "drop (length (chunk_data (plan ! k)) - nat (?e - ?a)) (chunk_data (plan ! k)) =
          py_slice audio ?a ?e"
    unfolding E(6) by (rule overlap_core_int(1)[OF s0 sa ord e'])
  show "take (nat (?e - ?a)) (chunk_data (plan ! Suc k)) = py_slice audio ?a ?e"
    unfolding E'(6) by (rule overlap_core_int(2)[OF s0 sa ord e'])
qed

lemma smart_plan_empty:
  "silence_split_loop cap t ov d sr bs audio [] 0 0 = Inr plan \<Longrightarrow> (plan = [] \<longleftrightarrow> audio = [])"
  by (subst (asm) silence_split_loop_unfold)
     (auto split: if_splits dest!: silence_split_loop_chain)




lemma py_slice_slice:
  assumes "0 \<le> a" "a \<le> b" "b \<le> int (length xs)" "0 \<le> c" "c \<le> d" "d \<le> b - a"
  shows "py_slice (py_slice xs a b) c d = py_slice xs (a + c) (a + d)"
proof -
  have 1: "py_slice xs a b = take (nat (b - a)) (drop (nat a) xs)"
    using assms by (simp add: py_slice_nonneg)
  have 2: "py_slice (py_slice xs a b) c d = take (nat (d - c)) (drop (nat c) (py_slice xs a b))"
    using assms by (simp add: py_slice_nonneg)
  have 3: "py_slice xs (a + c) (a + d) = take (nat (d - c)) (drop (nat (a + c)) xs)"
    using assms by (simp add: py_slice_nonneg)
  have "nat (b - a) - nat c \<ge> nat (d - c)" using assms by simp
  moreover have "nat c + nat a = nat (a + c)" using assms by simp
  ultimately show ?thesis unfolding 2 3 unfolding 1
    by (simp add: drop_take min_def)
qed

lemma scenario_perfect:
  fixes audio :: "'a list"
  assumes len: "length audio = 441000"
  shows "split_audio_with_perfect_overlap 4 1 44100 audio =
     Inr [\<lparr>index = 0, start_sample = 0, end_sample = 220500, chunk_data = py_slice audio 0 220500\<rparr>,
          \<lparr>index = 1, start_sample = 176400, end_sample = 396900, chunk_data = py_slice audio 176400 396900\<rparr>,
          \<lparr>index = 2, start_sample = 352800, end_sample = 441000, chunk_data = py_slice audio 352800 441000\<rparr>]"
  using len
  by (simp add: split_audio_with_perfect_overlap_def perfect_overlap_loop.simps Let_def
        np_broadcastable_def py_slice_from_def py_slice_to_def py_slice_def py_index_def)

lemma find_optimal_split_point_Nil: "find_optimal_split_point d t [] sr = t"
  by (simp add: find_optimal_split_point_def)

lemma scenario_smart_loop:
  fixes audio :: "'a list"
  assumes len: "length audio = 441000"
  shows "silence_split_loop 1000 4 1 max_deviation 44100 [] audio [] 0 0 =
     Inr [\<lparr>index = 0, start_sample = 0, end_sample = 220500, chunk_data = py_slice audio 0 220500,
            actual_split_sample = 176400\<rparr>,
          \<lparr>index = 1, start_sample = 176400, end_sample = 396900, chunk_data = py_slice audio 176400 396900,
            actual_split_sample = 352800\<rparr>,
          \<lparr>index = 2, start_sample = 352800, end_sample = 441000, chunk_data = py_slice audio 352800 441000,
            actual_split_sample = 441000\<rparr>]"
  using len
  by (simp add: silence_split_loop.simps Let_def find_optimal_split_point_Nil)

lemma scenario_overlap:
  fixes audio :: "'a list"
  assumes len: "length audio = 441000"
  shows "py_slice (py_slice audio 0 220500) 176400 220500 = py_slice audio 176400 220500"
    and "py_slice (py_slice audio 176400 396900) 0 44100 = py_slice audio 176400 220500"
  using py_slice_slice[of 0 220500 audio 176400 220500]
        py_slice_slice[of 176400 396900 audio 0 44100] len by simp_all

text \<open>
  Claim C1, as amended. For a non-negative overlap shorter than the target duration and a
  positive sample rate, every plan that a planner returns is well-formed. The no-overlap spans
  tile \<open>[0, total_samples)\<close>: the first starts at sample 0, each split point is the next
  entry's \<open>start_sample\<close> (in the sample-accurate planner the split point of an entry is its
  start plus \<open>chunk_samples\<close>), every span is non-empty, and the last reaches the end of
  the audio. Every chunk file holds the slice \<open>[start_sample, end_sample)\<close> of the source.
  Two adjacent chunks share the source samples from the split point to the first chunk's end:
  these are the last \<open>k\<close> samples of chunk \<open>i\<close> and the first \<open>k\<close> samples of chunk
  \<open>i + 1\<close>, where \<open>k\<close> is \<open>overlap_samples\<close> clipped to what is left of the audio after
  the split point. For the silence-aware planner the detector's intervals are assumed to lie
  inside the audio.
\<close>

theorem chunk_plan_tiling_and_overlap:
  fixes audio :: "'a list"
  assumes "0 \<le> overlap_duration" and "overlap_duration < target_chunk_duration"
    and "0 < sample_rate"
  shows
    "(split_audio_with_perfect_overlap target_chunk_duration overlap_duration sample_rate audio
        = Inr plan \<longrightarrow>
      (plan = [] \<longleftrightarrow> audio = []) \<and>
      (\<forall>k < length plan.
         start_sample (plan ! k) = int k * (target_chunk_duration * sample_rate) \<and>
         start_sample (plan ! k) < int (length audio) \<and>
         chunk_data (plan ! k) = py_slice audio (start_sample (plan ! k)) (end_sample (plan ! k)) \<and>
         (Suc k = length plan \<longrightarrow>
            int (length audio) \<le> start_sample (plan ! k) + target_chunk_duration * sample_rate) \<and>
         (Suc k < length plan \<longrightarrow>
            start_sample (plan ! Suc k) =
              start_sample (plan ! k) + target_chunk_duration * sample_rate \<and>
            end_sample (plan ! k) - start_sample (plan ! Suc k) =
              min (overlap_duration * sample_rate)
                  (int (length audio) - start_sample (plan ! Suc k)) \<and>
            drop (length (chunk_data (plan ! k)) -
                    nat (end_sample (plan ! k) - start_sample (plan ! Suc k)))
                 (chunk_data (plan ! k)) =
              py_slice audio (start_sample (plan ! Suc k)) (end_sample (plan ! k)) \<and>
            take (nat (end_sample (plan ! k) - start_sample (plan ! Suc k)))
                 (chunk_data (plan ! Suc k)) =
              py_slice audio (start_sample (plan ! Suc k)) (end_sample (plan ! k))))) \<and>
     (detector_ok detected audio \<longrightarrow>
      split_audio_at_silence_boundaries target_chunk_duration overlap_duration max_deviation
        sample_rate detected audio = Inr splan \<longrightarrow>
      (splan = [] \<longleftrightarrow> audio = []) \<and>
      (\<forall>k < length splan.
         (k = 0 \<longrightarrow> start_sample (splan ! k) = 0) \<and>
         start_sample (splan ! k) < actual_split_sample (splan ! k) \<and>
         actual_split_sample (splan ! k) \<le> int (length audio) \<and>
         chunk_data (splan ! k) = py_slice audio (start_sample (splan ! k)) (end_sample (splan ! k)) \<and>
         (Suc k = length splan \<longrightarrow> actual_split_sample (splan ! k) = int (length audio)) \<and>
         (Suc k < length splan \<longrightarrow>
            actual_split_sample (splan ! k) = start_sample (splan ! Suc k) \<and>
            end_sample (splan ! k) - start_sample (splan ! Suc k) =
              min (overlap_duration * sample_rate)
                  (int (length audio) - start_sample (splan ! Suc k)) \<and>
            drop (length (chunk_data (splan ! k)) -
                    nat (end_sample (splan ! k) - start_sample (splan ! Suc k)))
                 (chunk_data (splan ! k)) =
              py_slice audio (start_sample (splan ! Suc k)) (end_sample (splan ! k)) \<and>
            take (nat (end_sample (splan ! k) - start_sample (splan ! Suc k)))
                 (chunk_data (splan ! Suc k)) =
              py_slice audio (start_sample (splan ! Suc k)) (end_sample (splan ! k)))))"
proof (intro conjI impI allI)
  assume run: "split_audio_with_perfect_overlap target_chunk_duration overlap_duration sample_rate audio = Inr plan"
  show "plan = [] \<longleftrightarrow> audio = []" using perfect_plan_empty[OF run] .
  fix k assume k: "k < length plan"
  note E = perfect_plan_entry[OF run k]
  show "start_sample (plan ! k) = int k * (target_chunk_duration * sample_rate)" by (rule E(2))
  show "start_sample (plan ! k) < int (length audio)" by (rule E(3))
  show "chunk_data (plan ! k) = py_slice audio (start_sample (plan ! k)) (end_sample (plan ! k))"
    by (rule E(4))
  { assume "Suc k = length plan"
    then show "int (length audio) \<le> start_sample (plan ! k) + target_chunk_duration * sample_rate"
      by (rule E(7)) }
  { assume k1: "Suc k < length plan"
    show "start_sample (plan ! Suc k) = start_sample (plan ! k) + target_chunk_duration * sample_rate"
      using E(2) perfect_plan_entry(2)[OF run k1] by (simp add: algebra_simps)
    note O = perfect_plan_overlap[OF run assms k1]
    show "end_sample (plan ! k) - start_sample (plan ! Suc k) =
              min (overlap_duration * sample_rate) (int (length audio) - start_sample (plan ! Suc k))"
      by (rule O(1))
    show "drop (length (chunk_data (plan ! k)) -
                    nat (end_sample (plan ! k) - start_sample (plan ! Suc k)))
                 (chunk_data (plan ! k)) =
              py_slice audio (start_sample (plan ! Suc k)) (end_sample (plan ! k))" by (rule O(2))
    show "take (nat (end_sample (plan ! k) - start_sample (plan ! Suc k)))
                 (chunk_data (plan ! Suc k)) =
              py_slice audio (start_sample (plan ! Suc k)) (end_sample (plan ! k))" by (rule O(3)) }
next
  assume ok: "detector_ok detected audio"
    and "split_audio_at_silence_boundaries target_chunk_duration overlap_duration max_deviation
        sample_rate detected audio = Inr splan"
  then have run: "silence_split_loop 1000 target_chunk_duration overlap_duration max_deviation
      sample_rate (find_silence_boundaries detected audio) audio [] 0 0 = Inr splan"
    by (simp add: split_audio_at_silence_boundaries_def)
  have pos: "0 < target_chunk_duration * sample_rate" using assms by simp
  show "splan = [] \<longleftrightarrow> audio = []" using smart_plan_empty[OF run] .
  fix k assume k: "k < length splan"
  note E = smart_plan_entry[OF run pos k]
  { assume "k = 0" then show "start_sample (splan ! k) = 0" by (rule E(7)) }
  show "start_sample (splan ! k) < actual_split_sample (splan ! k)" by (rule E(4))
  show "actual_split_sample (splan ! k) \<le> int (length audio)" using E(13)[OF ok] .
  show "chunk_data (splan ! k) = py_slice audio (start_sample (splan ! k)) (end_sample (splan ! k))"
    by (rule E(6))
  { assume "Suc k = length splan"
    from E(11)[OF this] E(13)[OF ok] show "actual_split_sample (splan ! k) = int (length audio)"
      by simp }
  { assume k1: "Suc k < length splan"
    show "actual_split_sample (splan ! k) = start_sample (splan ! Suc k)" using E(9)[OF k1] by simp
    note O = smart_plan_overlap[OF run assms k1]
    show "end_sample (splan ! k) - start_sample (splan ! Suc k) =
              min (overlap_duration * sample_rate) (int (length audio) - start_sample (splan ! Suc k))"
      by (rule O(1))
    show "drop (length (chunk_data (splan ! k)) -
                    nat (end_sample (splan ! k) - start_sample (splan ! Suc k)))
                 (chunk_data (splan ! k)) =
              py_slice audio (start_sample (splan ! Suc k)) (end_sample (splan ! k))" by (rule O(2))
    show "take (nat (end_sample (splan ! k) - start_sample (splan ! Suc k)))
                 (chunk_data (splan ! Suc k)) =
              py_slice audio (start_sample (splan ! Suc k)) (end_sample (splan ! k))" by (rule O(3)) }
qed

lemma perfect_example:
  "split_audio_with_perfect_overlap 4 1 1 [0, 1, 2, 3, 4, 5, 6, 7, 8, 9 :: int] =
     Inr [\<lparr>index = 0, start_sample = 0, end_sample = 5, chunk_data = [0, 1, 2, 3, 4]\<rparr>,
          \<lparr>index = 1, start_sample = 4, end_sample = 9, chunk_data = [4, 5, 6, 7, 8]\<rparr>,
          \<lparr>index = 2, start_sample = 8, end_sample = 10, chunk_data = [8, 9]\<rparr>]"
  by (simp add: split_audio_with_perfect_overlap_def perfect_overlap_loop.simps
        py_slice_def py_slice_from_def py_slice_to_def py_index_def np_broadcastable_def Let_def)

lemma smart_example:
  "split_audio_at_silence_boundaries 4 3 0 1 None [0, 1, 2, 3, 4, 5, 6, 7, 8, 9 :: int] =
     Inr [\<lparr>index = 0, start_sample = 0, end_sample = 7, chunk_data = [0, 1, 2, 3, 4, 5, 6],
            actual_split_sample = 4\<rparr>,
          \<lparr>index = 1, start_sample = 4, end_sample = 10, chunk_data = [4, 5, 6, 7, 8, 9],
            actual_split_sample = 8\<rparr>,
          \<lparr>index = 2, start_sample = 8, end_sample = 10, chunk_data = [8, 9],
            actual_split_sample = 10\<rparr>]"
  by (simp add: split_audio_at_silence_boundaries_def silence_split_loop.simps
        py_slice_def py_index_def Let_def find_silence_boundaries_def find_optimal_split_point_def)

theorem chunk_plan_tiling_and_overlap_witness:
  "(0::int) \<le> 1 \<and> (1::int) < 4 \<and> (0::int) \<le> 3 \<and> (3::int) < 4 \<and> (0::int) < 1 \<and>
   detector_ok None [0, 1, 2, 3, 4, 5, 6, 7, 8, 9 :: int] \<and>
   split_audio_with_perfect_overlap 4 1 1 [0, 1, 2, 3, 4, 5, 6, 7, 8, 9 :: int] =
     Inr [\<lparr>index = 0, start_sample = 0, end_sample = 5, chunk_data = [0, 1, 2, 3, 4]\<rparr>,
          \<lparr>index = 1, start_sample = 4, end_sample = 9, chunk_data = [4, 5, 6, 7, 8]\<rparr>,
          \<lparr>index = 2, start_sample = 8, end_sample = 10, chunk_data = [8, 9]\<rparr>] \<and>
   split_audio_at_silence_boundaries 4 3 0 1 None [0, 1, 2, 3, 4, 5, 6, 7, 8, 9 :: int] =
     Inr [\<lparr>index = 0, start_sample = 0, end_sample = 7, chunk_data = [0, 1, 2, 3, 4, 5, 6],
            actual_split_sample = 4\<rparr>,
          \<lparr>index = 1, start_sample = 4, end_sample = 10, chunk_data = [4, 5, 6, 7, 8, 9],
            actual_split_sample = 8\<rparr>,
          \<lparr>index = 2, start_sample = 8, end_sample = 10, chunk_data = [8, 9],
            actual_split_sample = 10\<rparr>] \<and>
   drop (5 - nat (9 - 8)) [4, 5, 6, 7, 8 :: int] = py_slice [0, 1, 2, 3, 4, 5, 6, 7, 8, 9] 8 9 \<and>
   take (nat (9 - 8)) [8, 9 :: int] = py_slice [0, 1, 2, 3, 4, 5, 6, 7, 8, 9] 8 9 \<and>
   drop (7 - nat (7 - 4)) [0, 1, 2, 3, 4, 5, 6 :: int] = py_slice [0, 1, 2, 3, 4, 5, 6, 7, 8, 9] 4 7 \<and>
   take (nat (7 - 4)) [4, 5, 6, 7, 8, 9 :: int] = py_slice [0, 1, 2, 3, 4, 5, 6, 7, 8, 9] 4 7"
proof -
  let ?audio = "[0, 1, 2, 3, 4, 5, 6, 7, 8, 9 :: int]"
  let ?plan = "[\<lparr>index = 0, start_sample = 0, end_sample = 5, chunk_data = [0, 1, 2, 3, 4 :: int]\<rparr>,
          \<lparr>index = 1, start_sample = 4, end_sample = 9, chunk_data = [4, 5, 6, 7, 8]\<rparr>,
          \<lparr>index = 2, start_sample = 8, end_sample = 10, chunk_data = [8, 9]\<rparr>]"
  let ?splan = "[\<lparr>index = 0, start_sample = 0, end_sample = 7, chunk_data = [0, 1, 2, 3, 4, 5, 6 :: int],
            actual_split_sample = 4\<rparr>,
          \<lparr>index = 1, start_sample = 4, end_sample = 10, chunk_data = [4, 5, 6, 7, 8, 9],
            actual_split_sample = 8\<rparr>,
          \<lparr>index = 2, start_sample = 8, end_sample = 10, chunk_data = [8, 9],
            actual_split_sample = 10\<rparr>]"
  have cfg1: "(0::int) \<le> 1" "(1::int) < 4" "(0::int) < 1" by simp_all
  have cfg3: "(0::int) \<le> 3" "(3::int) < 4" "(0::int) < 1" by simp_all
  have ok: "detector_ok None ?audio" by (simp add: detector_ok_def)
  note T = chunk_plan_tiling_and_overlap[OF cfg1, of ?audio ?plan None 0 ?splan]
  note U = chunk_plan_tiling_and_overlap[OF cfg3, of ?audio ?plan None 0 ?splan]
  from T have P: "\<forall>k<length ?plan. Suc k < length ?plan \<longrightarrow>
      drop (length (chunk_data (?plan ! k)) - nat (end_sample (?plan ! k) - start_sample (?plan ! Suc k)))
           (chunk_data (?plan ! k)) =
        py_slice ?audio (start_sample (?plan ! Suc k)) (end_sample (?plan ! k))"
    using perfect_example by blast
  from U have S: "\<forall>k<length ?splan. Suc k < length ?splan \<longrightarrow>
      take (nat (end_sample (?splan ! k) - start_sample (?splan ! Suc k))) (chunk_data (?splan ! Suc k)) =
        py_slice ?audio (start_sample (?splan ! Suc k)) (end_sample (?splan ! k))"
    using smart_example ok by blast
  from T have P2: "\<forall>k<length ?plan. Suc k < length ?plan \<longrightarrow>
      take (nat (end_sample (?plan ! k) - start_sample (?plan ! Suc k))) (chunk_data (?plan ! Suc k)) =
        py_slice ?audio (start_sample (?plan ! Suc k)) (end_sample (?plan ! k))"
    using perfect_example by blast
  from U have S2: "\<forall>k<length ?splan. Suc k < length ?splan \<longrightarrow>
      drop (length (chunk_data (?splan ! k)) - nat (end_sample (?splan ! k) - start_sample (?splan ! Suc k)))
           (chunk_data (?splan ! k)) =
        py_slice ?audio (start_sample (?splan ! Suc k)) (end_sample (?splan ! k))"
    using smart_example ok by blast
  have a: "drop (5 - nat (9 - 8)) [4, 5, 6, 7, 8 :: int] = py_slice ?audio 8 9"
    using P[rule_format, of 1] by simp
  have b: "take (nat (9 - 8)) [8, 9 :: int] = py_slice ?audio 8 9"
    using P2[rule_format, of 1] by simp
  have c: "drop (7 - nat (7 - 4)) [0, 1, 2, 3, 4, 5, 6 :: int] = py_slice ?audio 4 7"
    using S2[rule_format, of 0] by simp
  have d: "take (nat (7 - 4)) [4, 5, 6, 7, 8, 9 :: int] = py_slice ?audio 4 7"
    using S[rule_format, of 0] by simp
  show ?thesis using cfg1 cfg3 ok perfect_example smart_example a b c d by blast
qed

text \<open>
  Claim C1, as stated, fails. Ten samples at 1 Hz, a target of four seconds, an overlap of
  three and \<open>max_deviation\<close> 0, so that neither end of the audio is a candidate; the detector
  finds one non-silent interval, or fails. The silence-aware planner returns three chunks: the
  second ends at the end of the audio and the third holds only two samples, so the last
  \<open>overlap_samples\<close> samples of the second chunk, \<open>chunk[-3:]\<close>, are not the first
  \<open>overlap_samples\<close> samples of the third, \<open>chunk[:3]\<close>.
\<close>

theorem chunk_plan_overlap_counterexample:
  "split_audio_at_silence_boundaries 4 3 0 1 (Some [(0, 10)]) [0, 1, 2, 3, 4, 5, 6, 7, 8, 9 :: int] =
     Inr [\<lparr>index = 0, start_sample = 0, end_sample = 7, chunk_data = [0, 1, 2, 3, 4, 5, 6],
            actual_split_sample = 4\<rparr>,
          \<lparr>index = 1, start_sample = 4, end_sample = 10, chunk_data = [4, 5, 6, 7, 8, 9],
            actual_split_sample = 8\<rparr>,
          \<lparr>index = 2, start_sample = 8, end_sample = 10, chunk_data = [8, 9],
            actual_split_sample = 10\<rparr>] \<and>
   split_audio_at_silence_boundaries 4 3 0 1 None [0, 1, 2, 3, 4, 5, 6, 7, 8, 9 :: int] =
     Inr [\<lparr>index = 0, start_sample = 0, end_sample = 7, chunk_data = [0, 1, 2, 3, 4, 5, 6],
            actual_split_sample = 4\<rparr>,
          \<lparr>index = 1, start_sample = 4, end_sample = 10, chunk_data = [4, 5, 6, 7, 8, 9],
            actual_split_sample = 8\<rparr>,
          \<lparr>index = 2, start_sample = 8, end_sample = 10, chunk_data = [8, 9],
            actual_split_sample = 10\<rparr>] \<and>
   py_slice_from [4, 5, 6, 7, 8, 9 :: int] (- (3 * 1)) = [7, 8, 9] \<and>
   py_slice_to [8, 9 :: int] (3 * 1) = [8, 9] \<and>
   [7, 8, 9 :: int] \<noteq> [8, 9]"
  by (simp add: split_audio_at_silence_boundaries_def silence_split_loop.simps
        py_slice_def py_slice_from_def py_slice_to_def py_index_def Let_def
        find_silence_boundaries_def find_optimal_split_point_def)

lemma smart_plan_end_rule:
  fixes audio :: "'a list"
  assumes run: "silence_split_loop cap t ov d sr (find_silence_boundaries detected audio) audio [] 0 0 = Inr plan"
    and ok: "detector_ok detected audio" and k: "k < length plan"
  shows "Suc k < length plan \<Longrightarrow>
           end_sample (plan ! k) = min (actual_split_sample (plan ! k) + ov * sr) (int (length audio))"
    and "Suc k = length plan \<Longrightarrow> end_sample (plan ! k) = int (length audio)"
    and "Suc k = length plan \<Longrightarrow> actual_split_sample (plan ! k) = int (length audio)"
proof -
  let ?bs = "find_silence_boundaries detected audio"
  let ?n = "int (length audio)"
  from silence_split_loop_chain[OF run]
  have chain: "plan_chain (smart_entry t ov d sr ?bs audio) (smart_split t d sr ?bs ?n) ?n 0 0 plan"
    by auto
  from plan_chain_nth[OF chain k] obtain u where u:
    "plan ! k = smart_entry t ov d sr ?bs audio (0 + int k) u"
    "Suc k < length plan \<longrightarrow> smart_split t d sr ?bs ?n u < ?n"
    "Suc k = length plan \<longrightarrow> \<not> smart_split t d sr ?bs ?n u < ?n" by blast
  have le: "smart_split t d sr ?bs ?n u \<le> ?n"
    using smart_split_le[of ?bs ?n] find_silence_boundaries_range[OF ok] by blast
  show "Suc k < length plan \<Longrightarrow>
           end_sample (plan ! k) = min (actual_split_sample (plan ! k) + ov * sr) ?n"
    using u by (simp add: smart_entry_def smart_end_def)
  show "Suc k = length plan \<Longrightarrow> end_sample (plan ! k) = ?n"
    using u le by (simp add: smart_entry_def smart_end_def)
  show "Suc k = length plan \<Longrightarrow> actual_split_sample (plan ! k) = ?n"
    using u le by (simp add: smart_entry_def smart_end_def)
qed

lemma scenario_boundaries:
  fixes audio :: "'a list"
  assumes "length audio = 441000" "detected = None \<or> detected = Some []"
  shows "find_silence_boundaries detected audio = [0, 441000]"
  using assms by (auto simp: find_silence_boundaries_def)

lemma scenario_no_candidate:
  assumes "d < 2" "t = 176400 \<or> t = 352800"
  shows "find_optimal_split_point d t [0, 441000] 44100 = t"
proof -
  have "d * 44100 < 88200" using assms(1) by simp
  with assms(2) show ?thesis by (auto simp: find_optimal_split_point_def)
qed

lemma scenario_smart:
  fixes audio :: "'a list"
  assumes len: "length audio = 441000" and det: "detected = None \<or> detected = Some []"
    and d: "max_deviation < 2"
  shows "split_audio_at_silence_boundaries 4 1 max_deviation 44100 detected audio =
     Inr [\<lparr>index = 0, start_sample = 0, end_sample = 220500, chunk_data = py_slice audio 0 220500,
            actual_split_sample = 176400\<rparr>,
          \<lparr>index = 1, start_sample = 176400, end_sample = 396900, chunk_data = py_slice audio 176400 396900,
            actual_split_sample = 352800\<rparr>,
          \<lparr>index = 2, start_sample = 352800, end_sample = 441000, chunk_data = py_slice audio 352800 441000,
            actual_split_sample = 441000\<rparr>]"
  unfolding split_audio_at_silence_boundaries_def scenario_boundaries[OF len det]
  using len scenario_no_candidate[OF d]
  by (simp add: silence_split_loop.simps Let_def)

text \<open>
  Claim C2. In every returned plan an entry that is not the last ends at
  \<open>min (split + overlap_samples) total_samples\<close>, and the last entry ends at
  \<open>total_samples\<close> (for the silence-aware planner, with the detector's intervals inside the
  audio). For 441000 samples at 44100 Hz, a target of 4 s and an overlap of 1 s, the plan is
  \<open>[0, 220500)\<close>, \<open>[176400, 396900)\<close>, \<open>[352800, 441000)\<close>: in the sample-accurate
  planner, in the silence-aware loop without candidates, and in the silence-aware planner when
  no speech was detected and no file end lies within \<open>max_deviation\<close> of a target. Samples
  176400 to 220500 of chunk 0 and samples 0 to 44100 of chunk 1 are the source's samples
  176400 to 220500.
\<close>

theorem materialization_rule_and_scenario:
  fixes audio :: "'a list" and source :: "'b list"
  shows
    "(split_audio_with_perfect_overlap chunk_duration overlap_duration sample_rate audio = Inr plan \<longrightarrow>
      (\<forall>k < length plan.
         (Suc k < length plan \<longrightarrow>
            end_sample (plan ! k) =
              min (start_sample (plan ! k) + chunk_duration * sample_rate + overlap_duration * sample_rate)
                  (int (length audio))) \<and>
         (Suc k = length plan \<longrightarrow> end_sample (plan ! k) = int (length audio)))) \<and>
     (detector_ok detected audio \<longrightarrow>
      split_audio_at_silence_boundaries chunk_duration overlap_duration max_deviation sample_rate
        detected audio = Inr splan \<longrightarrow>
      (\<forall>k < length splan.
         (Suc k < length splan \<longrightarrow>
            end_sample (splan ! k) =
              min (actual_split_sample (splan ! k) + overlap_duration * sample_rate)
                  (int (length audio))) \<and>
         (Suc k = length splan \<longrightarrow>
            end_sample (splan ! k) = int (length audio) \<and>
            actual_split_sample (splan ! k) = int (length audio)))) \<and>
     (length source = 441000 \<longrightarrow>
      split_audio_with_perfect_overlap 4 1 44100 source =
        Inr [\<lparr>index = 0, start_sample = 0, end_sample = 220500,
               chunk_data = py_slice source 0 220500\<rparr>,
             \<lparr>index = 1, start_sample = 176400, end_sample = 396900,
               chunk_data = py_slice source 176400 396900\<rparr>,
             \<lparr>index = 2, start_sample = 352800, end_sample = 441000,
               chunk_data = py_slice source 352800 441000\<rparr>] \<and>
      silence_split_loop 1000 4 1 any_deviation 44100 [] source [] 0 0 =
        Inr [\<lparr>index = 0, start_sample = 0, end_sample = 220500,
               chunk_data = py_slice source 0 220500, actual_split_sample = 176400\<rparr>,
             \<lparr>index = 1, start_sample = 176400, end_sample = 396900,
               chunk_data = py_slice source 176400 396900, actual_split_sample = 352800\<rparr>,
             \<lparr>index = 2, start_sample = 352800, end_sample = 441000,
               chunk_data = py_slice source 352800 441000, actual_split_sample = 441000\<rparr>] \<and>
      ((no_speech = None \<or> no_speech = Some []) \<and> small_deviation < 2 \<longrightarrow>
       split_audio_at_silence_boundaries 4 1 small_deviation 44100 no_speech source =
        Inr [\<lparr>index = 0, start_sample = 0, end_sample = 220500,
               chunk_data = py_slice source 0 220500, actual_split_sample = 176400\<rparr>,
             \<lparr>index = 1, start_sample = 176400, end_sample = 396900,
               chunk_data = py_slice source 176400 396900, actual_split_sample = 352800\<rparr>,
             \<lparr>index = 2, start_sample = 352800, end_sample = 441000,
               chunk_data = py_slice source 352800 441000, actual_split_sample = 441000\<rparr>]) \<and>
      py_slice (py_slice source 0 220500) 176400 220500 = py_slice source 176400 220500 \<and>
      py_slice (py_slice source 176400 396900) 0 44100 = py_slice source 176400 220500)"
proof (intro conjI impI allI)
  assume run: "split_audio_with_perfect_overlap chunk_duration overlap_duration sample_rate audio = Inr plan"
  fix k assume k: "k < length plan"
  { assume "Suc k < length plan"
    then show "end_sample (plan ! k) =
              min (start_sample (plan ! k) + chunk_duration * sample_rate + overlap_duration * sample_rate)
                  (int (length audio))" by (rule perfect_plan_entry(6)[OF run k]) }
  { assume "Suc k = length plan"
    then show "end_sample (plan ! k) = int (length audio)" by (rule perfect_plan_entry(8)[OF run k]) }
next
  assume ok: "detector_ok detected audio"
    and "split_audio_at_silence_boundaries chunk_duration overlap_duration max_deviation sample_rate
        detected audio = Inr splan"
  then have run: "silence_split_loop 1000 chunk_duration overlap_duration max_deviation
      sample_rate (find_silence_boundaries detected audio) audio [] 0 0 = Inr splan"
    by (simp add: split_audio_at_silence_boundaries_def)
  fix k assume k: "k < length splan"
  note R = smart_plan_end_rule[OF run ok k]
  { assume "Suc k < length splan"
    then show "end_sample (splan ! k) =
              min (actual_split_sample (splan ! k) + overlap_duration * sample_rate)
                  (int (length audio))" by (rule R(1)) }
  { assume l: "Suc k = length splan"
    then show "end_sample (splan ! k) = int (length audio)" by (rule R(2))
    from l show "actual_split_sample (splan ! k) = int (length audio)" by (rule R(3)) }
next
  assume len: "length source = 441000"
  show "split_audio_with_perfect_overlap 4 1 44100 source =
        Inr [\<lparr>index = 0, start_sample = 0, end_sample = 220500,
               chunk_data = py_slice source 0 220500\<rparr>,
             \<lparr>index = 1, start_sample = 176400, end_sample = 396900,
               chunk_data = py_slice source 176400 396900\<rparr>,
             \<lparr>index = 2, start_sample = 352800, end_sample = 441000,
               chunk_data = py_slice source 352800 441000\<rparr>]"
    by (rule scenario_perfect[OF len])
  show "silence_split_loop 1000 4 1 any_deviation 44100 [] source [] 0 0 =
        Inr [\<lparr>index = 0, start_sample = 0, end_sample = 220500,
               chunk_data = py_slice source 0 220500, actual_split_sample = 176400\<rparr>,
             \<lparr>index = 1, start_sample = 176400, end_sample = 396900,
               chunk_data = py_slice source 176400 396900, actual_split_sample = 352800\<rparr>,
             \<lparr>index = 2, start_sample = 352800, end_sample = 441000,
               chunk_data = py_slice source 352800 441000, actual_split_sample = 441000\<rparr>]"
    by (rule scenario_smart_loop[OF len])
  show "py_slice (py_slice source 0 220500) 176400 220500 = py_slice source 176400 220500"
    by (rule scenario_overlap(1)[OF len])
  show "py_slice (py_slice source 176400 396900) 0 44100 = py_slice source 176400 220500"
    by (rule scenario_overlap(2)[OF len])
  assume "(no_speech = None \<or> no_speech = Some []) \<and> small_deviation < 2"
  then show "split_audio_at_silence_boundaries 4 1 small_deviation 44100 no_speech source =
        Inr [\<lparr>index = 0, start_sample = 0, end_sample = 220500,
               chunk_data = py_slice source 0 220500, actual_split_sample = 176400\<rparr>,
             \<lparr>index = 1, start_sample = 176400, end_sample = 396900,
               chunk_data = py_slice source 176400 396900, actual_split_sample = 352800\<rparr>,
             \<lparr>index = 2, start_sample = 352800, end_sample = 441000,
               chunk_data = py_slice source 352800 441000, actual_split_sample = 441000\<rparr>]"
    using scenario_smart[OF len] by blast
qed

theorem materialization_rule_and_scenario_witness:
  "length (replicate 441000 (0::int)) = 441000 \<and>
   detector_ok None (replicate 441000 (0::int)) \<and>
   ((None :: (int \<times> int) list option) = None \<or> (None :: (int \<times> int) list option) = Some []) \<and>
   (0::int) < 2 \<and>
   split_audio_with_perfect_overlap 4 1 44100 (replicate 441000 (0::int)) =
        Inr [\<lparr>index = 0, start_sample = 0, end_sample = 220500,
               chunk_data = py_slice (replicate 441000 0) 0 220500\<rparr>,
             \<lparr>index = 1, start_sample = 176400, end_sample = 396900,
               chunk_data = py_slice (replicate 441000 0) 176400 396900\<rparr>,
             \<lparr>index = 2, start_sample = 352800, end_sample = 441000,
               chunk_data = py_slice (replicate 441000 0) 352800 441000\<rparr>] \<and>
   split_audio_at_silence_boundaries 4 1 0 44100 None (replicate 441000 (0::int)) =
        Inr [\<lparr>index = 0, start_sample = 0, end_sample = 220500,
               chunk_data = py_slice (replicate 441000 0) 0 220500, actual_split_sample = 176400\<rparr>,
             \<lparr>index = 1, start_sample = 176400, end_sample = 396900,
               chunk_data = py_slice (replicate 441000 0) 176400 396900, actual_split_sample = 352800\<rparr>,
             \<lparr>index = 2, start_sample = 352800, end_sample = 441000,
               chunk_data = py_slice (replicate 441000 0) 352800 441000, actual_split_sample = 441000\<rparr>] \<and>
   (220500::int) = min (0 + 4 * 44100 + 1 * 44100) (int (length (replicate 441000 (0::int)))) \<and>
   (220500::int) = min (176400 + 1 * 44100) (int (length (replicate 441000 (0::int)))) \<and>
   (441000::int) = int (length (replicate 441000 (0::int)))"
proof -
  let ?src = "replicate 441000 (0::int)"
  let ?plan = "[\<lparr>index = 0, start_sample = 0, end_sample = 220500,
               chunk_data = py_slice ?src 0 220500\<rparr>,
             \<lparr>index = 1, start_sample = 176400, end_sample = 396900,
               chunk_data = py_slice ?src 176400 396900\<rparr>,
             \<lparr>index = 2, start_sample = 352800, end_sample = 441000,
               chunk_data = py_slice ?src 352800 441000\<rparr>]"
  let ?splan = "[\<lparr>index = 0, start_sample = 0, end_sample = 220500,
               chunk_data = py_slice ?src 0 220500, actual_split_sample = 176400\<rparr>,
             \<lparr>index = 1, start_sample = 176400, end_sample = 396900,
               chunk_data = py_slice ?src 176400 396900, actual_split_sample = 352800\<rparr>,
             \<lparr>index = 2, start_sample = 352800, end_sample = 441000,
               chunk_data = py_slice ?src 352800 441000, actual_split_sample = 441000\<rparr>]"
  have len: "length ?src = 441000" by simp
  have ok: "detector_ok None ?src" by (simp add: detector_ok_def)
  have hyp: "((None :: (int \<times> int) list option) = None \<or> (None :: (int \<times> int) list option) = Some []) \<and> (0::int) < 2"
    by simp
  note T = materialization_rule_and_scenario[of 4 1 44100 ?src ?plan None 0 ?splan ?src 0 None 0]
  from T len have p: "split_audio_with_perfect_overlap 4 1 44100 ?src = Inr ?plan" by blast
  from T len hyp have s: "split_audio_at_silence_boundaries 4 1 0 44100 None ?src = Inr ?splan" by blast
  from T p have P: "\<forall>k<length ?plan. (Suc k < length ?plan \<longrightarrow>
            end_sample (?plan ! k) = min (start_sample (?plan ! k) + 4 * 44100 + 1 * 44100) (int (length ?src))) \<and>
         (Suc k = length ?plan \<longrightarrow> end_sample (?plan ! k) = int (length ?src))" by blast
  from T s ok have S: "\<forall>k<length ?splan. (Suc k < length ?splan \<longrightarrow>
            end_sample (?splan ! k) = min (actual_split_sample (?splan ! k) + 1 * 44100) (int (length ?src))) \<and>
         (Suc k = length ?splan \<longrightarrow> end_sample (?splan ! k) = int (length ?src) \<and>
            actual_split_sample (?splan ! k) = int (length ?src))" by blast
  have a: "(220500::int) = min (0 + 4 * 44100 + 1 * 44100) (int (length ?src))"
    using P[rule_format, of 0] by simp
  have b: "(220500::int) = min (176400 + 1 * 44100) (int (length ?src))"
    using S[rule_format, of 0] by simp
  have c: "(441000::int) = int (length ?src)"
    using S[rule_format, of 2] by simp
  show ?thesis using len ok hyp p s a b c by blast
qed

text \<open>
  Claim C7, as amended. For a positive target duration and sample rate, every entry of a
  returned plan has its split point strictly after its start, and the split point is always
  what the boundary search selected (the end of the audio once the target reaches it): there
  is no fallback. The search cannot select a sample at or before the start when
  \<open>max_deviation\<close> is below the target duration. When it selects the current start itself,
  the loop repeats that start until the chunk cap raises, and no plan is returned.
\<close>

theorem split_point_progress:
  fixes audio :: "'a list"
  assumes "0 < target_chunk_duration" and "0 < sample_rate"
  shows
    "(split_audio_at_silence_boundaries target_chunk_duration overlap_duration max_deviation
        sample_rate detected audio = Inr plan \<or>
      split_audio_for_transcription target_chunk_duration overlap_duration max_deviation
        sample_rate detected audio = Inr plan \<longrightarrow>
      (\<forall>k < length plan.
         start_sample (plan ! k) < actual_split_sample (plan ! k) \<and>
         actual_split_sample (plan ! k) =
           (if start_sample (plan ! k) + target_chunk_duration * sample_rate \<ge> int (length audio)
            then int (length audio)
            else find_optimal_split_point max_deviation
                   (start_sample (plan ! k) + target_chunk_duration * sample_rate)
                   (find_silence_boundaries detected audio) sample_rate))) \<and>
     (max_deviation < target_chunk_duration \<longrightarrow>
        s < find_optimal_split_point max_deviation (s + target_chunk_duration * sample_rate)
              boundaries sample_rate) \<and>
     (s < int (length audio) \<and> s + target_chunk_duration * sample_rate < int (length audio) \<and>
      find_optimal_split_point max_deviation (s + target_chunk_duration * sample_rate)
        boundaries sample_rate = s \<longrightarrow>
      silence_split_loop cap target_chunk_duration overlap_duration max_deviation sample_rate
        boundaries audio chunks i s = Inl TooManyChunks)"
proof (intro conjI impI allI)
  have pos: "0 < target_chunk_duration * sample_rate" using assms by simp
  assume "split_audio_at_silence_boundaries target_chunk_duration overlap_duration max_deviation
        sample_rate detected audio = Inr plan \<or>
      split_audio_for_transcription target_chunk_duration overlap_duration max_deviation
        sample_rate detected audio = Inr plan"
  then obtain c where run: "silence_split_loop c target_chunk_duration overlap_duration max_deviation
      sample_rate (find_silence_boundaries detected audio) audio [] 0 0 = Inr plan"
    unfolding split_audio_at_silence_boundaries_def split_audio_for_transcription_def by blast
  fix k assume k: "k < length plan"
  show "start_sample (plan ! k) < actual_split_sample (plan ! k)"
    by (rule smart_plan_entry(4)[OF run pos k])
  show "actual_split_sample (plan ! k) =
           (if start_sample (plan ! k) + target_chunk_duration * sample_rate \<ge> int (length audio)
            then int (length audio)
            else find_optimal_split_point max_deviation
                   (start_sample (plan ! k) + target_chunk_duration * sample_rate)
                   (find_silence_boundaries detected audio) sample_rate)"
    by (rule smart_plan_entry(5)[OF run pos k])
next
  assume d: "max_deviation < target_chunk_duration"
  let ?t = "s + target_chunk_duration * sample_rate"
  let ?r = "find_optimal_split_point max_deviation ?t boundaries sample_rate"
  have gap: "0 < (target_chunk_duration - max_deviation) * sample_rate" using d assms by simp
  from find_optimal_split_point_cases[of max_deviation ?t boundaries sample_rate]
  show "s < ?r"
  proof
    assume "?r = ?t \<and> (\<forall>b\<in>set boundaries. \<not> \<bar>b - ?t\<bar> \<le> max_deviation * sample_rate)"
    then show ?thesis using assms by simp
  next
    assume "?r \<in> set boundaries \<and> \<bar>?r - ?t\<bar> \<le> max_deviation * sample_rate \<and>
      (\<forall>b\<in>set boundaries. \<bar>b - ?t\<bar> \<le> max_deviation * sample_rate \<longrightarrow> \<bar>?r - ?t\<bar> \<le> \<bar>b - ?t\<bar>)"
    then have "?t - ?r \<le> max_deviation * sample_rate" by linarith
    with gap show ?thesis by (simp add: algebra_simps)
  qed
next
  assume a: "s < int (length audio) \<and> s + target_chunk_duration * sample_rate < int (length audio) \<and>
      find_optimal_split_point max_deviation (s + target_chunk_duration * sample_rate)
        boundaries sample_rate = s"
  then have "smart_split target_chunk_duration max_deviation sample_rate boundaries (int (length audio)) s = s"
    by (simp add: smart_split_def)
  with a show "silence_split_loop cap target_chunk_duration overlap_duration max_deviation sample_rate
        boundaries audio chunks i s = Inl TooManyChunks"
    using silence_split_loop_stall by blast
qed

lemma stall_example:
  "silence_split_loop cap 4 ov 15 1 [0, 10] [0, 1, 2, 3, 4, 5, 6, 7, 8, 9 :: int] chunks i 0 =
     Inl TooManyChunks"
  by (rule silence_split_loop_stall)
     (simp_all add: smart_split_def find_optimal_split_point_def py_min_key_def)

theorem split_point_progress_witness:
  "(0::int) < 4 \<and> (0::int) < 1 \<and>
   split_audio_at_silence_boundaries 4 3 0 1 None [0, 1, 2, 3, 4, 5, 6, 7, 8, 9 :: int] =
     Inr [\<lparr>index = 0, start_sample = 0, end_sample = 7, chunk_data = [0, 1, 2, 3, 4, 5, 6],
            actual_split_sample = 4\<rparr>,
          \<lparr>index = 1, start_sample = 4, end_sample = 10, chunk_data = [4, 5, 6, 7, 8, 9],
            actual_split_sample = 8\<rparr>,
          \<lparr>index = 2, start_sample = 8, end_sample = 10, chunk_data = [8, 9],
            actual_split_sample = 10\<rparr>] \<and>
   (4::int) < 8 \<and>
   (8::int) = find_optimal_split_point 0 (4 + 4 * 1)
                (find_silence_boundaries None [0, 1, 2, 3, 4, 5, 6, 7, 8, 9 :: int]) 1 \<and>
   (0::int) < 4 \<and>
   (0::int) < find_optimal_split_point 0 (0 + 4 * 1) [0, 10] 1 \<and>
   (0::int) < int (length [0, 1, 2, 3, 4, 5, 6, 7, 8, 9 :: int]) \<and>
   (0::int) + 4 * 1 < int (length [0, 1, 2, 3, 4, 5, 6, 7, 8, 9 :: int]) \<and>
   find_optimal_split_point 15 (0 + 4 * 1) [0, 10] 1 = 0 \<and>
   silence_split_loop 1000 4 3 15 1 [0, 10] [0, 1, 2, 3, 4, 5, 6, 7, 8, 9 :: int] [] 0 0 =
     Inl TooManyChunks"
proof -
  let ?audio = "[0, 1, 2, 3, 4, 5, 6, 7, 8, 9 :: int]"
  let ?plan = "[\<lparr>index = 0, start_sample = 0, end_sample = 7, chunk_data = [0, 1, 2, 3, 4, 5, 6 :: int],
            actual_split_sample = 4\<rparr>,
          \<lparr>index = 1, start_sample = 4, end_sample = 10, chunk_data = [4, 5, 6, 7, 8, 9],
            actual_split_sample = 8\<rparr>,
          \<lparr>index = 2, start_sample = 8, end_sample = 10, chunk_data = [8, 9],
            actual_split_sample = 10\<rparr>]"
  have cfg: "(0::int) < 4" "(0::int) < 1" by simp_all
  note A = split_point_progress[OF cfg, of 3 0 None ?audio ?plan 0 "[0, 10]" 1000 "[]" 0]
  note B = split_point_progress[OF cfg, of 3 15 None ?audio ?plan 0 "[0, 10]" 1000 "[]" 0]
  have run: "split_audio_at_silence_boundaries 4 3 0 1 None ?audio = Inr ?plan"
    by (rule smart_example)
  from A run have P: "\<forall>k<length ?plan.
         start_sample (?plan ! k) < actual_split_sample (?plan ! k) \<and>
         actual_split_sample (?plan ! k) =
           (if start_sample (?plan ! k) + 4 * 1 \<ge> int (length ?audio) then int (length ?audio)
            else find_optimal_split_point 0 (start_sample (?plan ! k) + 4 * 1)
                   (find_silence_boundaries None ?audio) 1)" by blast
  have a: "(4::int) < 8" "(8::int) = find_optimal_split_point 0 (4 + 4 * 1)
                (find_silence_boundaries None ?audio) 1"
    using P[rule_format, of 1] by simp_all
  from A have b: "(0::int) < find_optimal_split_point 0 (0 + 4 * 1) [0, 10] 1" by simp
  have pre: "(0::int) < int (length ?audio)" "(0::int) + 4 * 1 < int (length ?audio)"
    "find_optimal_split_point 15 (0 + 4 * 1) [0, 10] 1 = 0"
    by (simp_all add: find_optimal_split_point_def py_min_key_def)
  from B pre have c: "silence_split_loop 1000 4 3 15 1 [0, 10] ?audio [] 0 0 = Inl TooManyChunks"
    by blast
  show ?thesis using cfg run a b pre c by blast
qed

text \<open>
  A target of 4 s with \<open>max_deviation\<close> 15 s on ten samples at 1 Hz: the candidate nearest
  to the target 4 is sample 0, the start itself. The planner does not fall back to the target;
  it ends with the chunk-cap error.
\<close>

theorem split_point_fallback_counterexample:
  "find_optimal_split_point 15 (0 + 4 * 1)
     (find_silence_boundaries None [0, 1, 2, 3, 4, 5, 6, 7, 8, 9 :: int]) 1 = 0 \<and>
   split_audio_at_silence_boundaries 4 1 15 1 None [0, 1, 2, 3, 4, 5, 6, 7, 8, 9 :: int] =
     Inl TooManyChunks"
proof -
  have bs: "find_silence_boundaries None [0, 1, 2, 3, 4, 5, 6, 7, 8, 9 :: int] = [0, 10]"
    by (simp add: find_silence_boundaries_def)
  have "find_optimal_split_point 15 (0 + 4 * 1) [0, 10] 1 = 0"
    by (simp add: find_optimal_split_point_def py_min_key_def)
  moreover have "split_audio_at_silence_boundaries 4 1 15 1 None [0, 1, 2, 3, 4, 5, 6, 7, 8, 9 :: int] =
     Inl TooManyChunks"
    unfolding split_audio_at_silence_boundaries_def bs by (rule stall_example)
  ultimately show ?thesis unfolding bs by simp
qed

lemma smart_plan_last:
  fixes audio :: "'a list"
  assumes run: "silence_split_loop cap t ov d sr bs audio [] 0 0 = Inr plan" and ne: "plan \<noteq> []"
  shows "int (length audio) \<le> actual_split_sample (last plan)"
proof -
  let ?n = "int (length audio)"
  from silence_split_loop_chain[OF run]
  have chain: "plan_chain (smart_entry t ov d sr bs audio) (smart_split t d sr bs ?n) ?n 0 0 plan"
    by auto
  from ne have k: "length plan - 1 < length plan" "Suc (length plan - 1) = length plan" by simp_all
  from plan_chain_nth[OF chain k(1)] k(2) obtain u where
    "plan ! (length plan - 1) = smart_entry t ov d sr bs audio (0 + int (length plan - 1)) u"
    "\<not> smart_split t d sr bs ?n u < ?n" by auto
  then show ?thesis using ne by (simp add: last_conv_nth smart_entry_def)
qed



lemma perfect_plan_last:
  fixes audio :: "'a list"
  assumes run: "split_audio_with_perfect_overlap cd od sr audio = Inr plan" and ne: "plan \<noteq> []"
  shows "int (length audio) \<le> start_sample (last plan) + cd * sr"
proof -
  from ne have k: "length plan - 1 < length plan" "Suc (length plan - 1) = length plan" by simp_all
  from perfect_plan_entry(7)[OF run k] ne show ?thesis by (simp add: last_conv_nth)
qed
















lemma transcription_example:
  "split_audio_for_transcription 4 3 0 1 None [0, 1, 2, 3, 4, 5, 6, 7, 8, 9 :: int] =
     Inr [\<lparr>index = 0, start_sample = 0, end_sample = 7, chunk_data = [0, 1, 2, 3, 4, 5, 6],
            actual_split_sample = 4\<rparr>,
          \<lparr>index = 1, start_sample = 4, end_sample = 10, chunk_data = [4, 5, 6, 7, 8, 9],
            actual_split_sample = 8\<rparr>,
          \<lparr>index = 2, start_sample = 8, end_sample = 10, chunk_data = [8, 9],
            actual_split_sample = 10\<rparr>]"
  by (simp add: split_audio_for_transcription_def silence_split_loop.simps
        py_slice_def py_index_def Let_def find_silence_boundaries_def find_optimal_split_point_def)




section \<open>Audio reassembly: lemmas\<close>

lemma stitch_ml_loop_step:
  "0 < i \<Longrightarrow> fs p = Some f \<Longrightarrow>
   stitch_ml_loop od fs ((i, p) # todo) acc (Some r) =
     stitch_ml_loop od fs todo
       (case trim_and_fade od f of None \<Rightarrow> acc | Some x \<Rightarrow> acc @ [x]) (Some r)"
  by (simp add: trim_and_fade_def Let_def)

lemma stitch_ml_loop_tail:
  assumes "map fs ps = map Some rest" "0 < i"
  shows "stitch_ml_loop od fs (enumerate i ps) acc (Some r) =
           Inr (acc @ List.map_filter (trim_and_fade od) rest, Some r)"
  using assms
proof (induction ps arbitrary: rest i acc)
  case Nil
  then show ?case by simp
next
  case (Cons p ps)
  then obtain f rest' where rest: "rest = f # rest'" "fs p = Some f" "map fs ps = map Some rest'"
    by (cases rest) auto
  have ih: "stitch_ml_loop od fs (enumerate (Suc i) ps) acc' (Some r) =
           Inr (acc' @ List.map_filter (trim_and_fade od) rest', Some r)" for acc'
    using Cons.IH[OF rest(3), of "Suc i" acc'] by simp
  have "stitch_ml_loop od fs (enumerate i (p # ps)) acc (Some r) =
        stitch_ml_loop od fs (enumerate (Suc i) ps)
          (case trim_and_fade od f of None \<Rightarrow> acc | Some x \<Rightarrow> acc @ [x]) (Some r)"
    using stitch_ml_loop_step[of i fs p f] Cons.prems(2) rest(2) by simp
  also have "\<dots> = Inr (acc @ List.map_filter (trim_and_fade od) rest, Some r)"
    unfolding ih rest(1) by (cases "trim_and_fade od f") simp_all
  finally show ?case .
qed

lemma stitch_ml_loop_closed:
  assumes "fs p = Some first" "map fs ps = map Some rest"
  shows "stitch_ml_loop od fs (enumerate 0 (p # ps)) [] None =
           Inr ((data first, channels first) # List.map_filter (trim_and_fade od) rest,
                Some (samplerate first))"
  using assms stitch_ml_loop_tail[OF assms(2), of "Suc 0" od "[(data first, channels first)]" "samplerate first"]
  by simp

lemma stitch_ml_missing:
  assumes "fs p = None" "p \<in> set ps"
  shows "stitch_ml_loop od fs (enumerate i ps) acc sr = Inl FileNotFound"
  using assms
proof (induction ps arbitrary: i acc sr)
  case Nil
  then show ?case by simp
next
  case (Cons q ps)
  show ?case
  proof (cases "fs q")
    case None
    then show ?thesis by simp
  next
    case (Some f)
    with Cons.prems have "p \<in> set ps" by auto
    from Cons.IH[OF Cons.prems(1) this] Some show ?thesis by (simp add: Let_def)
  qed
qed

lemma length_apply_fade: "length (apply_fade n xs) = length xs"
  by (simp add: apply_fade_def)

lemma nth_apply_fade:
  "j < length xs \<Longrightarrow>
   apply_fade n xs ! j = (if int j < n then map (\<lambda>v. v * fade_curve n j) (xs ! j) else xs ! j)"
  by (simp add: apply_fade_def nth_enumerate_eq)

lemma drop_apply_fade: "drop (nat n) (apply_fade n xs) = drop (nat n) xs"
  by (rule nth_equalityI) (auto simp: length_apply_fade nth_apply_fade)

lemma apply_fade_nonpos: "n \<le> 0 \<Longrightarrow> apply_fade n xs = xs"
  by (rule nth_equalityI) (auto simp: length_apply_fade nth_apply_fade)

lemma trim_and_fade_piece:
  assumes "0 \<le> od * samplerate f"
  shows "trim_and_fade od f =
           (if int (length (data f)) > od * samplerate f then Some (kept_piece od f, channels f)
            else None)"
    and "\<not> int (length (data f)) > od * samplerate f \<Longrightarrow> kept_piece od f = []"
proof -
  have sl: "py_slice_from (data f) (od * samplerate f) = drop (nat (od * samplerate f)) (data f)"
    using assms by (auto simp: py_slice_from_def py_index_def min_def)
  show "trim_and_fade od f =
           (if int (length (data f)) > od * samplerate f then Some (kept_piece od f, channels f)
            else None)"
    unfolding trim_and_fade_def kept_piece_def sl Let_def
    by (auto simp: apply_fade_nonpos not_less)
  show "\<not> int (length (data f)) > od * samplerate f \<Longrightarrow> kept_piece od f = []"
    using assms by (simp add: kept_piece_def apply_fade_def)
qed

lemma map_filter_pieces:
  assumes "\<forall>f\<in>set rest. 0 \<le> od * samplerate f"
  shows "concat (map fst (List.map_filter (trim_and_fade od) rest)) = concat (map (kept_piece od) rest)"
  using assms
proof (induction rest)
  case Nil
  then show ?case by simp
next
  case (Cons f rest)
  then have "0 \<le> od * samplerate f" by simp
  from trim_and_fade_piece[OF this] Cons show ?case
    by auto
qed

lemma map_filter_channels:
  "list_all (\<lambda>a. snd a = c) (List.map_filter (trim_and_fade od) rest) \<longleftrightarrow>
   list_all (\<lambda>f. int (length (data f)) > od * samplerate f \<longrightarrow> channels f = c) rest"
  by (induction rest) (auto simp: trim_and_fade_def)

lemma stitch_ml_closed:
  assumes "file_at locate fs p = Some first" "map (file_at locate fs) ps = map Some rest"
  shows "stitch_ml_chunks_no_crossfade locate encode od fs (p # ps) output_file =
     (if list_all (\<lambda>f. int (length (data f)) > od * samplerate f \<longrightarrow> channels f = channels first) rest
      then if samplerate first = 0 then Inl ZeroDivision
           else sf_write locate encode fs output_file
                  \<lparr>data = data first @ concat (map fst (List.map_filter (trim_and_fade od) rest)),
                   channels = channels first, samplerate = samplerate first\<rparr>
      else Inl ShapeMismatch)"
  unfolding stitch_ml_chunks_no_crossfade_def stitch_ml_loop_closed[OF assms]
  by (simp add: np_vstack_def map_filter_channels)

lemma length_kept_piece:
  "length (kept_piece od f) = length (data f) - nat (od * samplerate f)"
  by (simp add: kept_piece_def length_apply_fade)

lemma pcm_16_examples:
  "pcm_16 0 = 0" "pcm_16 (1 / 2) = 1 / 2" "pcm_16 (1 / 4) = 1 / 4" "pcm_16 (1 / 8) = 1 / 8"
  "pcm_16 2 = 32767 / 32768" "pcm_16 (- 2) = - 1"
  by (simp_all add: pcm_16_def round_half_even_def)

text \<open>
  Claim C3, as amended. For a non-empty list of chunk files that share one sample rate and one
  channel count (overlap not negative), the trim-and-fade reassembler writes chunk 0 whole,
  followed, for every later chunk, by the frames after its first \<open>overlap_samples\<close> frames,
  of which only the first \<open>fade_samples\<close> (50 ms, or all that is left) are scaled by the
  fade-in curve; \<open>sf.write\<close> stores that array in the encoding of the output format. The
  output has \<open>frames(chunk 0)\<close> plus, for every later chunk,
  \<open>frames(chunk k) - overlap_samples\<close> frames where that is positive and none otherwise: a
  chunk with at most \<open>overlap_samples\<close> frames is skipped whole.
\<close>

theorem trim_and_fade_reassembly:
  assumes files: "file_at locate fs p = Some first" "map (file_at locate fs) ps = map Some rest"
    and same: "\<forall>f\<in>set rest. samplerate f = samplerate first \<and> channels f = channels first"
    and cfg: "0 \<le> overlap_duration" "0 < samplerate first"
  shows
    "stitch_ml_chunks_no_crossfade locate encode overlap_duration fs (p # ps) output_file =
       (case locate output_file of
          None \<Rightarrow> Inl FileNotFound
        | Some out \<Rightarrow>
            Inr (fs(out \<mapsto>
              \<lparr>data = map (map encode)
                 (data first @
                  concat (map (\<lambda>f.
                    apply_fade
                      (min (py_int (50 / 1000 * real_of_int (samplerate first)))
                           (int (length (data f) - nat (overlap_duration * samplerate first))))
                      (drop (nat (overlap_duration * samplerate first)) (data f))) rest)),
               channels = channels first, samplerate = samplerate first\<rparr>))) \<and>
     length (map (map encode)
            (data first @
             concat (map (\<lambda>f.
               apply_fade
                 (min (py_int (50 / 1000 * real_of_int (samplerate first)))
                      (int (length (data f) - nat (overlap_duration * samplerate first))))
                 (drop (nat (overlap_duration * samplerate first)) (data f))) rest))) =
       length (data first) +
       (\<Sum>f\<leftarrow>rest. length (data f) - nat (overlap_duration * samplerate first)) \<and>
     (\<forall>n frames. length (apply_fade n frames) = length frames \<and>
                 drop (nat n) (apply_fade n frames) = drop (nat n) frames \<and>
                 (\<forall>j < length frames. int j < n \<longrightarrow>
                    apply_fade n frames ! j = map (\<lambda>v. v * fade_curve n j) (frames ! j)))"
proof (intro conjI allI impI)
  let ?piece = "\<lambda>f. apply_fade
                (min (py_int (50 / 1000 * real_of_int (samplerate first)))
                     (int (length (data f) - nat (overlap_duration * samplerate first))))
                (drop (nat (overlap_duration * samplerate first)) (data f))"
  have nonneg: "\<forall>f\<in>set rest. 0 \<le> overlap_duration * samplerate f" using same cfg by simp
  have pieces: "map (kept_piece overlap_duration) rest = map ?piece rest"
    using same by (simp add: kept_piece_def)
  have chans: "list_all (\<lambda>f. int (length (data f)) > overlap_duration * samplerate f \<longrightarrow>
                           channels f = channels first) rest"
    using same by (simp add: list_all_iff)
  show "stitch_ml_chunks_no_crossfade locate encode overlap_duration fs (p # ps) output_file =
       (case locate output_file of
          None \<Rightarrow> Inl FileNotFound
        | Some out \<Rightarrow>
            Inr (fs(out \<mapsto>
              \<lparr>data = map (map encode) (data first @ concat (map ?piece rest)),
               channels = channels first, samplerate = samplerate first\<rparr>)))"
    unfolding stitch_ml_closed[OF files] map_filter_pieces[OF nonneg] pieces
    using chans cfg by (simp add: sf_write_def split: option.splits)
  show "length (map (map encode) (data first @ concat (map ?piece rest))) =
       length (data first) +
       (\<Sum>f\<leftarrow>rest. length (data f) - nat (overlap_duration * samplerate first))"
    by (simp add: length_concat comp_def length_apply_fade)
  fix n :: int and frames :: "real list list"
  show "length (apply_fade n frames) = length frames" by (rule length_apply_fade)
  show "drop (nat n) (apply_fade n frames) = drop (nat n) frames" by (rule drop_apply_fade)
  fix j assume "j < length frames" "int j < n"
  then show "apply_fade n frames ! j = map (\<lambda>v. v * fade_curve n j) (frames ! j)"
    by (simp add: nth_apply_fade)
qed

theorem trim_and_fade_reassembly_witness:
  "file_at Some
     [''a'' \<mapsto> \<lparr>data = [[1 / 2], [1 / 4]], channels = 1, samplerate = 40\<rparr>,
      ''b'' \<mapsto> \<lparr>data = replicate 40 [1 / 4] @ [[1 / 2], [1 / 4], [1 / 8]], channels = 1, samplerate = 40\<rparr>]
     ''a'' = Some \<lparr>data = [[1 / 2], [1 / 4]], channels = 1, samplerate = 40\<rparr> \<and>
   (0::int) \<le> 1 \<and> (0::int) < 40 \<and>
   stitch_ml_chunks_no_crossfade Some pcm_16 1
     [''a'' \<mapsto> \<lparr>data = [[1 / 2], [1 / 4]], channels = 1, samplerate = 40\<rparr>,
      ''b'' \<mapsto> \<lparr>data = replicate 40 [1 / 4] @ [[1 / 2], [1 / 4], [1 / 8]], channels = 1, samplerate = 40\<rparr>]
     [''a'', ''b''] ''out'' =
   Inr ([''a'' \<mapsto> \<lparr>data = [[1 / 2], [1 / 4]], channels = 1, samplerate = 40\<rparr>,
         ''b'' \<mapsto> \<lparr>data = replicate 40 [1 / 4] @ [[1 / 2], [1 / 4], [1 / 8]], channels = 1, samplerate = 40\<rparr>,
         ''out'' \<mapsto> \<lparr>data = [[1 / 2], [1 / 4], [0], [1 / 4], [1 / 8]], channels = 1, samplerate = 40\<rparr>])"
proof -
  let ?first = "\<lparr>data = [[1 / 2], [1 / 4 :: real]], channels = 1, samplerate = 40\<rparr>"
  let ?second = "\<lparr>data = replicate 40 [1 / 4] @ [[1 / 2], [1 / 4], [1 / 8 :: real]], channels = 1, samplerate = 40\<rparr>"
  let ?fs = "[''a'' \<mapsto> ?first, ''b'' \<mapsto> ?second]"
  have files: "file_at Some ?fs ''a'' = Some ?first" "map (file_at Some ?fs) [''b''] = map Some [?second]"
    by (simp_all add: file_at_def)
  have same: "\<forall>f\<in>set [?second]. samplerate f = samplerate ?first \<and> channels f = channels ?first"
    by simp
  have cfg: "(0::int) \<le> 1" "0 < samplerate ?first" by simp_all
  have fade: "apply_fade 2 [[1 / 2], [1 / 4], [1 / 8 :: real]] = [[0], [1 / 4], [1 / 8]]"
    by (simp add: apply_fade_def fade_curve_def enumerate_eq_zip upt_rec)
  from trim_and_fade_reassembly[OF files same cfg, of pcm_16 "''out''"]
  have "stitch_ml_chunks_no_crossfade Some pcm_16 1 ?fs [''a'', ''b''] ''out'' =
     Inr (?fs(''out'' \<mapsto> \<lparr>data = [[1 / 2], [1 / 4], [0], [1 / 4], [1 / 8]], channels = 1, samplerate = 40\<rparr>))"
    by (simp add: py_int_def fade pcm_16_examples)
  then show ?thesis using files(1) by simp
qed

text \<open>
  Claim C3, as stated, fails. A second chunk of one frame under an overlap of two samples is
  skipped: the output has the three frames of the first chunk, not \<open>3 + (1 - 2)\<close>.
\<close>

theorem trim_and_fade_count_counterexample:
  "stitch_ml_chunks_no_crossfade Some pcm_16 2
     [''a'' \<mapsto> \<lparr>data = [[1 / 2], [1 / 4], [1 / 8]], channels = 1, samplerate = 1\<rparr>,
      ''b'' \<mapsto> \<lparr>data = [[1 / 4]], channels = 1, samplerate = 1\<rparr>]
     [''a'', ''b''] ''out'' =
   Inr ([''a'' \<mapsto> \<lparr>data = [[1 / 2], [1 / 4], [1 / 8]], channels = 1, samplerate = 1\<rparr>,
         ''b'' \<mapsto> \<lparr>data = [[1 / 4]], channels = 1, samplerate = 1\<rparr>,
         ''out'' \<mapsto> \<lparr>data = [[1 / 2], [1 / 4], [1 / 8]], channels = 1, samplerate = 1\<rparr>]) \<and>
   int (length [[1 / 2], [1 / 4], [1 / 8 :: real]]) \<noteq>
     int (length [[1 / 2], [1 / 4], [1 / 8 :: real]]) + (int (length [[1 / 4 :: real]]) - 2 * 1)"
  by (simp add: stitch_ml_chunks_no_crossfade_def file_at_def sf_write_def enumerate_eq_zip upt_rec
        np_vstack_def Let_def pcm_16_examples)

lemma crossfade_filter_ok:
  "2 \<le> n \<Longrightarrow> \<exists>flt. AudioChunker_create_crossfade_filter od n = Inr flt"
  by (simp add: AudioChunker_create_crossfade_filter_def Let_def)

lemma crossfade_filter_pair:
  "AudioChunker_create_crossfade_filter od 2 =
     Inr (''[0]'' @ aformat @ ''[chunk0];'' @
          ''[chunk0][1]'' @ aformat @ ''acrossfade=d='' @ py_str od @ '':c1=tri:c2=tri[chunk1];'' @
          ''[chunk1]'' @ aformat @ ''[out]'')"
  by (simp add: AudioChunker_create_crossfade_filter_def py_str_def str_nat.simps
        upt_rec Let_def numeral_2_eq_2)

text \<open>
  Claim C6, as amended. With two or more chunk files, \<open>AudioStitcher\<close> does not reject a
  disagreement on the sample rate (it is logged): the call completes and the output carries
  the first chunk's sample rate. The call fails in \<open>np.vstack\<close> exactly when a later chunk
  that is kept (longer than its \<open>overlap_samples\<close>) has another channel count than the
  first. \<open>AudioChunker\<close> checks nothing: it hands ffmpeg the chunk paths, in their order,
  and the filter it builds from the overlap and the number of chunks, and the outcome of the
  call is the outcome of that run. The filter for two chunks is given in full.
\<close>

theorem format_disagreement:
  assumes files: "file_at locate fs p = Some first" "map (file_at locate fs) ps = map Some rest"
    and rate: "samplerate first \<noteq> 0" and more: "ps \<noteq> []"
    and out: "locate output_file = Some out"
  shows
    "(list_all (\<lambda>f. overlap_duration * samplerate f < int (length (data f)) \<longrightarrow>
                     channels f = channels first) rest \<longrightarrow>
      AudioStitcher_stitch_chunks_with_crossfade locate encode overlap_duration fs (p # ps)
          output_file =
        Inr (fs(out \<mapsto>
          \<lparr>data = map (map encode)
             (data first @
              concat (map fst (List.map_filter (trim_and_fade overlap_duration) rest))),
           channels = channels first, samplerate = samplerate first\<rparr>))) \<and>
     (\<not> list_all (\<lambda>f. overlap_duration * samplerate f < int (length (data f)) \<longrightarrow>
                       channels f = channels first) rest \<longrightarrow>
      AudioStitcher_stitch_chunks_with_crossfade locate encode overlap_duration fs (p # ps)
          output_file =
        Inl ShapeMismatch) \<and>
     (\<exists>filter_complex.
        AudioChunker_create_crossfade_filter overlap_duration (length (p # ps)) =
          Inr filter_complex \<and>
        AudioChunker_stitch_chunks_with_crossfade subprocess_run locate overlap_duration fs
            (p # ps) output_file =
          subprocess_run
            ([''ffmpeg'', ''-y''] @ concat (map (\<lambda>chunk_file. [''-i'', chunk_file]) (p # ps)) @
             [''-filter_complex'', filter_complex, ''-c:a'', ''pcm_s16le'', output_file])
            fs) \<and>
     AudioChunker_create_crossfade_filter overlap_duration 2 =
       Inr (''[0]'' @ aformat @ ''[chunk0];'' @
            ''[chunk0][1]'' @ aformat @ ''acrossfade=d='' @ py_str overlap_duration @
            '':c1=tri:c2=tri[chunk1];'' @
            ''[chunk1]'' @ aformat @ ''[out]'')"
proof (intro conjI impI)
  show "AudioChunker_create_crossfade_filter overlap_duration 2 =
       Inr (''[0]'' @ aformat @ ''[chunk0];'' @
            ''[chunk0][1]'' @ aformat @ ''acrossfade=d='' @ py_str overlap_duration @
            '':c1=tri:c2=tri[chunk1];'' @
            ''[chunk1]'' @ aformat @ ''[out]'')"
    by (rule crossfade_filter_pair)
  have wrap: "AudioStitcher_stitch_chunks_with_crossfade locate encode overlap_duration fs (p # ps)
        output_file =
      stitch_ml_chunks_no_crossfade locate encode overlap_duration fs (p # ps) output_file"
    using more by (cases ps) (simp_all add: AudioStitcher_stitch_chunks_with_crossfade_def)
  { assume "list_all (\<lambda>f. overlap_duration * samplerate f < int (length (data f)) \<longrightarrow>
                     channels f = channels first) rest"
    then show "AudioStitcher_stitch_chunks_with_crossfade locate encode overlap_duration fs (p # ps)
          output_file =
        Inr (fs(out \<mapsto>
          \<lparr>data = map (map encode)
             (data first @
              concat (map fst (List.map_filter (trim_and_fade overlap_duration) rest))),
           channels = channels first, samplerate = samplerate first\<rparr>))"
      unfolding wrap stitch_ml_closed[OF files] using rate out by (simp add: sf_write_def) }
  { assume "\<not> list_all (\<lambda>f. overlap_duration * samplerate f < int (length (data f)) \<longrightarrow>
                     channels f = channels first) rest"
    then show "AudioStitcher_stitch_chunks_with_crossfade locate encode overlap_duration fs (p # ps)
          output_file = Inl ShapeMismatch"
      unfolding wrap stitch_ml_closed[OF files] by simp }
  have "2 \<le> length (p # ps)" using more by (cases ps) simp_all
  from crossfade_filter_ok[OF this, of overlap_duration] obtain flt where
    flt: "AudioChunker_create_crossfade_filter overlap_duration (length (p # ps)) = Inr flt" ..
  have "AudioChunker_stitch_chunks_with_crossfade subprocess_run locate overlap_duration fs
            (p # ps) output_file =
          subprocess_run
            ([''ffmpeg'', ''-y''] @ concat (map (\<lambda>chunk_file. [''-i'', chunk_file]) (p # ps)) @
             [''-filter_complex'', flt, ''-c:a'', ''pcm_s16le'', output_file]) fs"
    using more flt by (cases ps) (auto simp: AudioChunker_stitch_chunks_with_crossfade_def)
  with flt show "\<exists>filter_complex.
        AudioChunker_create_crossfade_filter overlap_duration (length (p # ps)) =
          Inr filter_complex \<and>
        AudioChunker_stitch_chunks_with_crossfade subprocess_run locate overlap_duration fs
            (p # ps) output_file =
          subprocess_run
            ([''ffmpeg'', ''-y''] @ concat (map (\<lambda>chunk_file. [''-i'', chunk_file]) (p # ps)) @
             [''-filter_complex'', filter_complex, ''-c:a'', ''pcm_s16le'', output_file])
            fs"
    by blast
qed

theorem format_disagreement_witness:
  "file_at Some
     [''a'' \<mapsto> \<lparr>data = [[1 / 2]], channels = 1, samplerate = 44100\<rparr>,
      ''b'' \<mapsto> \<lparr>data = [[1 / 4, 1 / 8]], channels = 2, samplerate = 48000\<rparr>] ''a'' =
     Some \<lparr>data = [[1 / 2]], channels = 1, samplerate = 44100\<rparr> \<and>
   samplerate \<lparr>data = [[1 / 2 :: real]], channels = 1, samplerate = 44100\<rparr> \<noteq> 0 \<and>
   list_all (\<lambda>f. 2 * samplerate f < int (length (data f)) \<longrightarrow> channels f = 1)
     [\<lparr>data = [[1 / 4, 1 / 8]], channels = 2, samplerate = 48000\<rparr>] \<and>
   AudioStitcher_stitch_chunks_with_crossfade Some pcm_16 2
     [''a'' \<mapsto> \<lparr>data = [[1 / 2]], channels = 1, samplerate = 44100\<rparr>,
      ''b'' \<mapsto> \<lparr>data = [[1 / 4, 1 / 8]], channels = 2, samplerate = 48000\<rparr>]
     [''a'', ''b''] ''out'' =
     Inr ([''a'' \<mapsto> \<lparr>data = [[1 / 2]], channels = 1, samplerate = 44100\<rparr>,
           ''b'' \<mapsto> \<lparr>data = [[1 / 4, 1 / 8]], channels = 2, samplerate = 48000\<rparr>,
           ''out'' \<mapsto> \<lparr>data = [[1 / 2]], channels = 1, samplerate = 44100\<rparr>]) \<and>
   \<not> list_all (\<lambda>f. 0 * samplerate f < int (length (data f)) \<longrightarrow> channels f = 1)
     [\<lparr>data = [[1 / 4, 1 / 8]], channels = 2, samplerate = 48000\<rparr>] \<and>
   AudioStitcher_stitch_chunks_with_crossfade Some pcm_16 0
     [''a'' \<mapsto> \<lparr>data = [[1 / 2]], channels = 1, samplerate = 44100\<rparr>,
      ''b'' \<mapsto> \<lparr>data = [[1 / 4, 1 / 8]], channels = 2, samplerate = 48000\<rparr>]
     [''a'', ''b''] ''out'' = Inl ShapeMismatch \<and>
   AudioChunker_stitch_chunks_with_crossfade (\<lambda>cmd fs. Inl CalledProcessError) Some 2
     [''a'' \<mapsto> \<lparr>data = [[1 / 2]], channels = 1, samplerate = 44100\<rparr>,
      ''b'' \<mapsto> \<lparr>data = [[1 / 4, 1 / 8]], channels = 2, samplerate = 48000\<rparr>]
     [''a'', ''b''] ''out'' = Inl CalledProcessError \<and>
   AudioChunker_create_crossfade_filter 2 2 =
     Inr (''[0]aformat=sample_fmts=s16:sample_rates=44100:channel_layouts=stereo[chunk0];'' @
          ''[chunk0][1]aformat=sample_fmts=s16:sample_rates=44100:channel_layouts=stereo'' @
          ''acrossfade=d=2:c1=tri:c2=tri[chunk1];'' @
          ''[chunk1]aformat=sample_fmts=s16:sample_rates=44100:channel_layouts=stereo[out]'')"
proof -
  let ?first = "\<lparr>data = [[1 / 2 :: real]], channels = 1, samplerate = 44100\<rparr>"
  let ?second = "\<lparr>data = [[1 / 4, 1 / 8 :: real]], channels = 2, samplerate = 48000\<rparr>"
  let ?fs = "[''a'' \<mapsto> ?first, ''b'' \<mapsto> ?second]"
  have files: "file_at Some ?fs ''a'' = Some ?first"
    "map (file_at Some ?fs) [''b''] = map Some [?second]"
    by (simp_all add: file_at_def)
  have rate: "samplerate ?first \<noteq> 0" by simp
  have more: "[''b''] \<noteq> []" by simp
  have out: "Some ''out'' = Some ''out''" by simp
  note T = format_disagreement[OF files rate more out]
  have kept: "list_all (\<lambda>f. 2 * samplerate f < int (length (data f)) \<longrightarrow> channels f = 1) [?second]"
    by simp
  have dropped: "\<not> list_all (\<lambda>f. 0 * samplerate f < int (length (data f)) \<longrightarrow> channels f = 1) [?second]"
    by simp
  from T[of 2 pcm_16] kept
  have a: "AudioStitcher_stitch_chunks_with_crossfade Some pcm_16 2 ?fs [''a'', ''b''] ''out'' =
      Inr (?fs(''out'' \<mapsto> ?first))"
    by (simp add: trim_and_fade_def List.map_filter_simps pcm_16_examples)
  from T[of 0 pcm_16] dropped
  have b: "AudioStitcher_stitch_chunks_with_crossfade Some pcm_16 0 ?fs [''a'', ''b''] ''out'' =
      Inl ShapeMismatch"
    by simp
  from T[of 2 _ "\<lambda>cmd fs. Inl CalledProcessError"]
  have c: "AudioChunker_stitch_chunks_with_crossfade (\<lambda>cmd fs. Inl CalledProcessError) Some 2 ?fs
      [''a'', ''b''] ''out'' = Inl CalledProcessError"
    by auto
  from T[of 2]
  have d: "AudioChunker_create_crossfade_filter 2 2 =
     Inr (''[0]aformat=sample_fmts=s16:sample_rates=44100:channel_layouts=stereo[chunk0];'' @
          ''[chunk0][1]aformat=sample_fmts=s16:sample_rates=44100:channel_layouts=stereo'' @
          ''acrossfade=d=2:c1=tri:c2=tri[chunk1];'' @
          ''[chunk1]aformat=sample_fmts=s16:sample_rates=44100:channel_layouts=stereo[out]'')"
    by (simp add: aformat_def py_str_def str_nat.simps)
  show ?thesis using files(1) rate kept dropped a b c d by simp
qed

text \<open>
  Claim C6, as stated, fails. Two mono chunks at 44100 Hz and 48000 Hz, overlap 0: the call
  completes and writes an output at 44100 Hz, the second chunk after its fade-in.
\<close>

theorem sample_rate_mismatch_counterexample:
  "AudioStitcher_stitch_chunks_with_crossfade Some pcm_16 0
     [''a'' \<mapsto> \<lparr>data = [[1 / 2], [1 / 4]], channels = 1, samplerate = 44100\<rparr>,
      ''b'' \<mapsto> \<lparr>data = [[1 / 4], [1 / 8]], channels = 1, samplerate = 48000\<rparr>]
     [''a'', ''b''] ''out'' =
   Inr ([''a'' \<mapsto> \<lparr>data = [[1 / 2], [1 / 4]], channels = 1, samplerate = 44100\<rparr>,
         ''b'' \<mapsto> \<lparr>data = [[1 / 4], [1 / 8]], channels = 1, samplerate = 48000\<rparr>,
         ''out'' \<mapsto> \<lparr>data = [[1 / 2], [1 / 4], [0], [1 / 8]], channels = 1, samplerate = 44100\<rparr>])"
  by (simp add: AudioStitcher_stitch_chunks_with_crossfade_def stitch_ml_chunks_no_crossfade_def
        file_at_def sf_write_def enumerate_eq_zip upt_rec np_vstack_def Let_def
        py_slice_from_def py_index_def py_int_def apply_fade_def fade_curve_def pcm_16_examples)



section \<open>Speaker mapping and word-level reassembly: lemmas\<close>

lemma py_min_key_snoc:
  "py_min_key f b (bs @ [x]) =
     (if f x < f (py_min_key f b bs) then x else py_min_key f b bs)"
  by (simp add: py_min_key_def)

lemma py_min_key_first:
  "\<exists>i < length (b # bs).
     py_min_key f b bs = (b # bs) ! i \<and>
     (\<forall>j < length (b # bs). f ((b # bs) ! i) \<le> f ((b # bs) ! j)) \<and>
     (\<forall>j < i. f ((b # bs) ! i) < f ((b # bs) ! j))"
proof (induction bs rule: rev_induct)
  case Nil
  show ?case by (simp add: py_min_key_def)
next
  case (snoc x bs)
  let ?xs = "b # bs"
  from snoc obtain i where i: "i < length ?xs" "py_min_key f b bs = ?xs ! i"
    "\<forall>j < length ?xs. f (?xs ! i) \<le> f (?xs ! j)" "\<forall>j < i. f (?xs ! i) < f (?xs ! j)" by blast
  have nth_old: "(b # bs @ [x]) ! j = ?xs ! j" if "j < length ?xs" for j
    using that nth_append[of ?xs "[x]" j] by simp
  have nth_new: "(b # bs @ [x]) ! length ?xs = x"
    using nth_append[of ?xs "[x]" "length ?xs"] by simp
  show ?case
  proof (cases "f x < f (py_min_key f b bs)")
    case True
    have "\<forall>j < length (b # bs @ [x]). f x \<le> f ((b # bs @ [x]) ! j)"
    proof (intro allI impI)
      fix j assume "j < length (b # bs @ [x])"
      then consider "j < length ?xs" | "j = length ?xs" by fastforce
      then show "f x \<le> f ((b # bs @ [x]) ! j)"
      proof cases
        case 1
        with i(3) True i(2) nth_old[OF 1] show ?thesis by fastforce
      next
        case 2
        then show ?thesis using nth_new by simp
      qed
    qed
    moreover have "\<forall>j < length ?xs. f x < f ((b # bs @ [x]) ! j)"
    proof (intro allI impI)
      fix j assume j: "j < length ?xs"
      with i(3) True i(2) nth_old[OF j] show "f x < f ((b # bs @ [x]) ! j)" by fastforce
    qed
    ultimately show ?thesis
      using True nth_new
      by (intro exI[of _ "length ?xs"]) (simp add: py_min_key_snoc)
  next
    case False
    have "\<forall>j < length (b # bs @ [x]). f (?xs ! i) \<le> f ((b # bs @ [x]) ! j)"
    proof (intro allI impI)
      fix j assume "j < length (b # bs @ [x])"
      then consider "j < length ?xs" | "j = length ?xs" by fastforce
      then show "f (?xs ! i) \<le> f ((b # bs @ [x]) ! j)"
      proof cases
        case 1
        with i(3) nth_old[OF 1] show ?thesis by simp
      next
        case 2
        then show ?thesis using nth_new False i(2) by simp
      qed
    qed
    moreover have "\<forall>j < i. f (?xs ! i) < f ((b # bs @ [x]) ! j)"
    proof (intro allI impI)
      fix j assume j: "j < i"
      then have "j < length ?xs" using i(1) by simp
      from nth_old[OF this] i(4) j show "f (?xs ! i) < f ((b # bs @ [x]) ! j)" by simp
    qed
    ultimately show ?thesis
      using False i(1) i(2) nth_old[OF i(1)]
      by (intro exI[of _ i]) (simp add: py_min_key_snoc)
  qed
qed

lemma find_first:
  "i < length xs \<Longrightarrow> P (xs ! i) \<Longrightarrow> \<forall>j < i. \<not> P (xs ! j) \<Longrightarrow> find P xs = Some (xs ! i)"
proof (induction xs arbitrary: i)
  case Nil
  then show ?case by simp
next
  case (Cons x xs)
  show ?case
  proof (cases i)
    case 0
    with Cons.prems show ?thesis by simp
  next
    case (Suc k)
    with Cons.prems have "\<not> P x" by auto
    moreover have "\<forall>j < k. \<not> P (xs ! j)"
    proof (intro allI impI)
      fix j assume "j < k"
      then have "Suc j < i" using Suc by simp
      with Cons.prems(3) have "\<not> P ((x # xs) ! Suc j)" by blast
      then show "\<not> P (xs ! j)" by simp
    qed
    then have "find P xs = Some (xs ! k)"
      using Cons.IH[of k] Cons.prems(1,2) Suc by simp
    ultimately show ?thesis using Suc by simp
  qed
qed

lemma find_speaker_inside:
  assumes "i < length segments"
    and "get_start_time (segments ! i) \<le> t \<and> t \<le> get_end_time (segments ! i)"
    and "\<forall>j < i. \<not> (get_start_time (segments ! j) \<le> t \<and> t \<le> get_end_time (segments ! j))"
  shows "find_speaker_at_time segments t = get_speaker (segments ! i)"
proof -
  have "find (\<lambda>s. get_start_time s \<le> t \<and> t \<le> get_end_time s) segments = Some (segments ! i)"
    by (rule find_first) (use assms in blast)+
  then show ?thesis by (simp add: find_speaker_at_time_def)
qed

lemma find_speaker_outside:
  assumes none: "\<forall>s \<in> set segments. \<not> (get_start_time s \<le> t \<and> t \<le> get_end_time s)"
    and ne: "segments \<noteq> []"
  shows "\<exists>i < length segments.
         find_speaker_at_time segments t = get_speaker (segments ! i) \<and>
         (\<forall>j < length segments.
            min \<bar>t - get_start_time (segments ! i)\<bar> \<bar>t - get_end_time (segments ! i)\<bar> \<le>
            min \<bar>t - get_start_time (segments ! j)\<bar> \<bar>t - get_end_time (segments ! j)\<bar>) \<and>
         (\<forall>j < i.
            min \<bar>t - get_start_time (segments ! i)\<bar> \<bar>t - get_end_time (segments ! i)\<bar> <
            min \<bar>t - get_start_time (segments ! j)\<bar> \<bar>t - get_end_time (segments ! j)\<bar>)"
proof -
  let ?d = "\<lambda>s. min \<bar>t - get_start_time s\<bar> \<bar>t - get_end_time s\<bar>"
  from ne obtain s ss where seg: "segments = s # ss" by (cases segments) auto
  have "find (\<lambda>s. get_start_time s \<le> t \<and> t \<le> get_end_time s) segments = None"
    using none by (simp add: find_None_iff)
  then have r: "find_speaker_at_time (s # ss) t = get_speaker (py_min_key ?d s ss)"
    by (simp add: find_speaker_at_time_def seg)
  from py_min_key_first[of s ss ?d] obtain i where i:
    "i < length (s # ss)" "py_min_key ?d s ss = (s # ss) ! i"
    "\<forall>j < length (s # ss). ?d ((s # ss) ! i) \<le> ?d ((s # ss) ! j)"
    "\<forall>j < i. ?d ((s # ss) ! i) < ?d ((s # ss) ! j)" by blast
  have eq: "find_speaker_at_time (s # ss) t = get_speaker ((s # ss) ! i)"
    unfolding r i(2) ..
  show ?thesis unfolding seg
  proof (intro exI[of _ i] conjI)
    show "i < length (s # ss)" by fact
    show "find_speaker_at_time (s # ss) t = get_speaker ((s # ss) ! i)" by fact
    show "\<forall>j < length (s # ss). ?d ((s # ss) ! i) \<le> ?d ((s # ss) ! j)" by fact
    show "\<forall>j < i. ?d ((s # ss) ! i) < ?d ((s # ss) ! j)" by fact
  qed
qed

lemma find_speaker_empty: "find_speaker_at_time [] t = ''UNKNOWN''"
  by (simp add: find_speaker_at_time_def)

lemma find_speaker_member:
  assumes ne: "segments \<noteq> []"
  shows "\<exists>s \<in> set segments. find_speaker_at_time segments t = get_speaker s"
proof (cases "find (\<lambda>s. get_start_time s \<le> t \<and> t \<le> get_end_time s) segments")
  case None
  then have "\<forall>s \<in> set segments. \<not> (get_start_time s \<le> t \<and> t \<le> get_end_time s)"
    by (simp add: find_None_iff)
  from find_speaker_outside[OF this ne] obtain i where
    "i < length segments" "find_speaker_at_time segments t = get_speaker (segments ! i)"
    by blast
  then show ?thesis using nth_mem[of i segments] by blast
next
  case (Some s)
  then have "s \<in> set segments" unfolding find_Some_iff by (metis nth_mem)
  with Some show ?thesis by (auto simp: find_speaker_at_time_def)
qed

lemma find_speaker_unknown:
  assumes "find_speaker_at_time segments t = ''UNKNOWN''"
  shows "segments = [] \<or>
         (\<exists>s \<in> set segments. d_speaker s = None \<or> d_speaker s = Some ''UNKNOWN'')"
proof (cases "segments = []")
  case True
  then show ?thesis by simp
next
  case False
  from find_speaker_member[OF False] obtain s where s: "s \<in> set segments"
    "find_speaker_at_time segments t = get_speaker s" by blast
  with assms have "get_speaker s = ''UNKNOWN''" by simp
  then have "d_speaker s = None \<or> d_speaker s = Some ''UNKNOWN''"
    by (simp add: get_speaker_def split: option.splits)
  with s(1) show ?thesis by blast
qed

text \<open>
  Claim C4, as amended. \<open>find_speaker_at_time\<close> resolves a timestamp in this order: when
  some segment has \<open>start_time \<le> t \<le> end_time\<close>, it returns the speaker of the first such
  segment; otherwise, for a non-empty list, the speaker of the segment whose nearer edge is
  closest to \<open>t\<close>, and among equally close segments the earliest; for the empty list it
  returns \<open>UNKNOWN\<close>. The speaker of a segment is read with
  \<open>segment.get('speaker', 'UNKNOWN')\<close>: for a non-empty list the result is \<open>UNKNOWN\<close> too
  when the segment resolved to has no speaker key, or the label \<open>UNKNOWN\<close> itself, and
  only then.
\<close>

theorem speaker_resolution_order:
  "(\<forall>i < length segments.
      get_start_time (segments ! i) \<le> t \<and> t \<le> get_end_time (segments ! i) \<and>
      (\<forall>j < i. \<not> (get_start_time (segments ! j) \<le> t \<and> t \<le> get_end_time (segments ! j))) \<longrightarrow>
      find_speaker_at_time segments t = get_speaker (segments ! i)) \<and>
   ((\<forall>s \<in> set segments. \<not> (get_start_time s \<le> t \<and> t \<le> get_end_time s)) \<and> segments \<noteq> [] \<longrightarrow>
      (\<exists>i < length segments.
         find_speaker_at_time segments t = get_speaker (segments ! i) \<and>
         (\<forall>j < length segments.
            min \<bar>t - get_start_time (segments ! i)\<bar> \<bar>t - get_end_time (segments ! i)\<bar> \<le>
            min \<bar>t - get_start_time (segments ! j)\<bar> \<bar>t - get_end_time (segments ! j)\<bar>) \<and>
         (\<forall>j < i.
            min \<bar>t - get_start_time (segments ! i)\<bar> \<bar>t - get_end_time (segments ! i)\<bar> <
            min \<bar>t - get_start_time (segments ! j)\<bar> \<bar>t - get_end_time (segments ! j)\<bar>))) \<and>
   (segments = [] \<longrightarrow> find_speaker_at_time segments t = ''UNKNOWN'') \<and>
   (segments \<noteq> [] \<longrightarrow> (\<exists>s \<in> set segments. find_speaker_at_time segments t = get_speaker s)) \<and>
   (\<forall>s. get_speaker s = (case d_speaker s of Some label \<Rightarrow> label | None \<Rightarrow> ''UNKNOWN'')) \<and>
   (find_speaker_at_time segments t = ''UNKNOWN'' \<longrightarrow>
      segments = [] \<or>
      (\<exists>s \<in> set segments. d_speaker s = None \<or> d_speaker s = Some ''UNKNOWN''))"
proof (intro conjI)
  show "\<forall>i < length segments.
      get_start_time (segments ! i) \<le> t \<and> t \<le> get_end_time (segments ! i) \<and>
      (\<forall>j < i. \<not> (get_start_time (segments ! j) \<le> t \<and> t \<le> get_end_time (segments ! j))) \<longrightarrow>
      find_speaker_at_time segments t = get_speaker (segments ! i)"
    using find_speaker_inside[of _ segments t] by blast
  show "(\<forall>s \<in> set segments. \<not> (get_start_time s \<le> t \<and> t \<le> get_end_time s)) \<and> segments \<noteq> [] \<longrightarrow>
      (\<exists>i < length segments.
         find_speaker_at_time segments t = get_speaker (segments ! i) \<and>
         (\<forall>j < length segments.
            min \<bar>t - get_start_time (segments ! i)\<bar> \<bar>t - get_end_time (segments ! i)\<bar> \<le>
            min \<bar>t - get_start_time (segments ! j)\<bar> \<bar>t - get_end_time (segments ! j)\<bar>) \<and>
         (\<forall>j < i.
            min \<bar>t - get_start_time (segments ! i)\<bar> \<bar>t - get_end_time (segments ! i)\<bar> <
            min \<bar>t - get_start_time (segments ! j)\<bar> \<bar>t - get_end_time (segments ! j)\<bar>))"
  proof
    assume a: "(\<forall>s \<in> set segments. \<not> (get_start_time s \<le> t \<and> t \<le> get_end_time s)) \<and> segments \<noteq> []"
    show "\<exists>i < length segments.
         find_speaker_at_time segments t = get_speaker (segments ! i) \<and>
         (\<forall>j < length segments.
            min \<bar>t - get_start_time (segments ! i)\<bar> \<bar>t - get_end_time (segments ! i)\<bar> \<le>
            min \<bar>t - get_start_time (segments ! j)\<bar> \<bar>t - get_end_time (segments ! j)\<bar>) \<and>
         (\<forall>j < i.
            min \<bar>t - get_start_time (segments ! i)\<bar> \<bar>t - get_end_time (segments ! i)\<bar> <
            min \<bar>t - get_start_time (segments ! j)\<bar> \<bar>t - get_end_time (segments ! j)\<bar>)"
      by (rule find_speaker_outside) (use a in blast)+
  qed
  show "segments = [] \<longrightarrow> find_speaker_at_time segments t = ''UNKNOWN''"
    using find_speaker_empty by simp
  show "segments \<noteq> [] \<longrightarrow> (\<exists>s \<in> set segments. find_speaker_at_time segments t = get_speaker s)"
    using find_speaker_member by blast
  show "\<forall>s. get_speaker s = (case d_speaker s of Some label \<Rightarrow> label | None \<Rightarrow> ''UNKNOWN'')"
    by (simp add: get_speaker_def)
  show "find_speaker_at_time segments t = ''UNKNOWN'' \<longrightarrow>
      segments = [] \<or>
      (\<exists>s \<in> set segments. d_speaker s = None \<or> d_speaker s = Some ''UNKNOWN'')"
    using find_speaker_unknown by blast
qed

theorem speaker_resolution_order_witness:
  "find_speaker_at_time
     [\<lparr>d_speaker = Some ''A'', d_start_time = Some 0, d_end_time = Some 5\<rparr>,
      \<lparr>d_speaker = Some ''B'', d_start_time = Some 7, d_end_time = Some 10\<rparr>] 8 = ''B'' \<and>
   find_speaker_at_time
     [\<lparr>d_speaker = Some ''A'', d_start_time = Some 0, d_end_time = Some 5\<rparr>,
      \<lparr>d_speaker = Some ''B'', d_start_time = Some 7, d_end_time = Some 10\<rparr>] 6 = ''A'' \<and>
   find_speaker_at_time [] 6 = ''UNKNOWN''"
proof -
  let ?A = "\<lparr>d_speaker = Some ''A'', d_start_time = Some 0, d_end_time = Some 5\<rparr>"
  let ?B = "\<lparr>d_speaker = Some ''B'', d_start_time = Some 7, d_end_time = Some 10\<rparr>"
  let ?segs = "[?A, ?B]"
  note inside = speaker_resolution_order[of ?segs 8, THEN conjunct1, rule_format, of 1]
  have a: "find_speaker_at_time ?segs 8 = ''B''"
    using inside by (simp add: get_start_time_def get_end_time_def get_speaker_def)
  note outside = speaker_resolution_order[of ?segs 6, THEN conjunct2, THEN conjunct1]
  have "(\<forall>s \<in> set ?segs. \<not> (get_start_time s \<le> 6 \<and> 6 \<le> get_end_time s)) \<and> ?segs \<noteq> []"
    by (simp add: get_start_time_def get_end_time_def)
  with outside obtain i where i: "i < length ?segs"
    "find_speaker_at_time ?segs 6 = get_speaker (?segs ! i)"
    "\<forall>j < i. min \<bar>6 - get_start_time (?segs ! i)\<bar> \<bar>6 - get_end_time (?segs ! i)\<bar> <
              min \<bar>6 - get_start_time (?segs ! j)\<bar> \<bar>6 - get_end_time (?segs ! j)\<bar>"
    by blast
  have "i = 0"
  proof (rule ccontr)
    assume "i \<noteq> 0"
    with i(1) have i1: "i = 1" by simp
    with i(3) have "min \<bar>6 - get_start_time (?segs ! 1)\<bar> \<bar>6 - get_end_time (?segs ! 1)\<bar> <
              min \<bar>6 - get_start_time (?segs ! 0)\<bar> \<bar>6 - get_end_time (?segs ! 0)\<bar>" by simp
    then show False by (simp add: get_start_time_def get_end_time_def)
  qed
  with i(2) have b: "find_speaker_at_time ?segs 6 = ''A''" by (simp add: get_speaker_def)
  have c: "find_speaker_at_time [] 6 = ''UNKNOWN''"
    using speaker_resolution_order[of "[]" 6] by simp
  from a b c show ?thesis by simp
qed

text \<open>
  Claim C4, as stated, fails. One segment without a speaker key: the list is not empty and
  the result is \<open>UNKNOWN\<close>, for a timestamp inside the segment and for one outside.
\<close>

theorem unknown_speaker_counterexample:
  "[\<lparr>d_speaker = None, d_start_time = Some 0, d_end_time = Some 5\<rparr>] \<noteq> [] \<and>
   find_speaker_at_time [\<lparr>d_speaker = None, d_start_time = Some 0, d_end_time = Some 5\<rparr>] 1 =
     ''UNKNOWN'' \<and>
   find_speaker_at_time [\<lparr>d_speaker = None, d_start_time = Some 0, d_end_time = Some 5\<rparr>] 9 =
     ''UNKNOWN''"
  by (simp add: find_speaker_at_time_def get_start_time_def get_end_time_def get_speaker_def
        py_min_key_def)

text \<open>
  Claim C5. \<open>stitch_chunks\<close> raises \<open>AttributeError\<close> for every instance: it reads
  \<open>self.full_audio_diarization_segments\<close>, and the attribute that \<open>__init__\<close> and
  \<open>load_chunks_data\<close> assign is \<open>self.full_diarization_segments\<close>. No transcript is
  returned, whatever the words of the chunks are.
\<close>

theorem stitch_chunks_attribute_error:
  "stitch_chunks self = Inl AttributeError \<and>
   stitch_chunks
     (load_chunks_data
        [[\<lparr>w_word = Some ''hello'', w_text = None, w_start = Some 0, w_end = Some (2 / 5),
            w_speaker = None\<rparr>,
          \<lparr>w_word = Some ''world'', w_text = None, w_start = Some (1 / 2), w_end = Some (9 / 10),
            w_speaker = None\<rparr>]]
        [\<lparr>d_speaker = Some ''SPEAKER_00'', d_start_time = Some 0, d_end_time = Some 1\<rparr>]
        SimplifiedTranscriptStitcher_init) = Inl AttributeError"
  by (simp add: stitch_chunks_def getattr_segments_def Let_def)

section \<open>Text-only reassembly: lemmas\<close>

lemma scenario_sentences:
  "chunk_sentences ''Go on. Yes. It was very late.'' = [''Go on'', ''Yes'', ''It was very late'']"
  by (simp add: chunk_sentences_def py_strip_def is_space_def is_terminal_def)

lemma scenario_clean:
  "clean_transcript_text ''Go on. Yes. It was very late.'' = ''Go on. Yes. It was very late.''"
  "clean_transcript_text ''Yes. It was very late. Then it rained.'' =
     ''Yes. It was very late. Then it rained.''"
  by (simp_all add: clean_transcript_text_def py_strip_def is_space_def is_terminal_def)

lemma scenario_leading:
  "leading_text ''Go on. Yes. It was very late.'' ''Yes. It was very late. Then it rained.'' =
     ''Yes. It was very late. Then it rained.''"
  by (simp add: leading_text_def scenario_sentences search_sentences_of_def py_slice_from_def
      py_index_def py_strip_def is_space_def)

text \<open>
  Claim C9. \<open>detect_overlap_boundary\<close> returns at the first search sentence that occurs in
  the leading text of chunk 2. Here \<open>Yes\<close> is found before \<open>It was very late\<close> is tried:
  the boundary is 3, where the longest search sentence, which is also the last one that
  occurs, gives 21, and the repeated sentence stays in the stitched transcript. After an empty
  first chunk nothing is appended at all.
\<close>

theorem overlap_boundary_first_match:
  "detect_overlap_boundary ''Go on. Yes. It was very late.''
     ''Yes. It was very late. Then it rained.'' 30 = Some 3 \<and>
   longest_sentence_boundary ''Go on. Yes. It was very late.''
     ''Yes. It was very late. Then it rained.'' 30 = Some 21 \<and>
   last_sentence_boundary ''Go on. Yes. It was very late.''
     ''Yes. It was very late. Then it rained.'' 30 = Some 21 \<and>
   stitch_transcript_chunks 30
     [''Go on. Yes. It was very late.'', ''Yes. It was very late. Then it rained.''] =
     Inr ''Go on. Yes. It was very late. . It was very late. Then it rained.'' \<and>
   stitch_transcript_chunks 30 [[], ''Hello there. How are you.''] = Inr []"
proof (intro conjI)
  let ?c1 = "''Go on. Yes. It was very late.''"
  let ?c2 = "''Yes. It was very late. Then it rained.''"
  have search: "search_sentences_of (chunk_sentences ?c1) = [''Go on'', ''Yes'', ''It was very late'']"
    by (simp add: scenario_sentences search_sentences_of_def py_slice_from_def py_index_def)
  show d: "detect_overlap_boundary ?c1 ?c2 30 = Some 3"
    by (simp add: detect_overlap_boundary_def scenario_sentences search_sentences_of_def
        py_slice_from_def py_index_def Let_def py_strip_def is_space_def py_in_def py_find_def)
  show "longest_sentence_boundary ?c1 ?c2 30 = Some 21"
    by (simp add: longest_sentence_boundary_def longest_sentence_def search scenario_leading Let_def
        py_in_def py_find_def)
  show "last_sentence_boundary ?c1 ?c2 30 = Some 21"
    by (simp add: last_sentence_boundary_def search scenario_leading Let_def py_in_def py_find_def)
  have "stitch_step 30 [?c1, ?c2] ?c1 (Suc 0) =
       ''Go on. Yes. It was very late. . It was very late. Then it rained.''"
    by (simp add: stitch_step_def scenario_clean d Let_def py_slice_from_def py_index_def
        py_strip_def is_space_def is_terminal_def)
  moreover have "clean_transcript_text
       ''Go on. Yes. It was very late. . It was very late. Then it rained.'' =
       ''Go on. Yes. It was very late. . It was very late. Then it rained.''"
    by (simp add: clean_transcript_text_def py_strip_def is_space_def is_terminal_def)
  moreover have "stitch_step 30 [?c1, ?c2] [] 0 = ?c1"
    by (simp add: stitch_step_def scenario_clean Let_def)
  ultimately show "stitch_transcript_chunks 30 [?c1, ?c2] =
     Inr ''Go on. Yes. It was very late. . It was very late. Then it rained.''"
    by (simp add: stitch_transcript_chunks_def upt_rec)
  have "stitch_step 30 [[], ''Hello there. How are you.''] [] 0 = []"
    by (simp add: stitch_step_def clean_transcript_text_def Let_def)
  moreover have "stitch_step 30 [[], ''Hello there. How are you.''] [] (Suc 0) = []"
    by (simp add: stitch_step_def Let_def)
  ultimately show "stitch_transcript_chunks 30 [[], ''Hello there. How are you.''] = Inr []"
    by (simp add: stitch_transcript_chunks_def upt_rec clean_transcript_text_def)
qed

end
